theory Spec2Isabelle
  imports Complex_Main
begin

section \<open>Status codes, C doubles and C ints\<close>

text \<open>
  The Easel status codes that \<^verbatim>\<open>p7_builder.c\<close> names, as tags. Any other code a
  collaborator may hand back is \<open>eslEOTHER n\<close>.
\<close>

datatype esl_status =
  eslOK | eslEMEM | eslENOTFOUND | eslEFORMAT | eslEINVAL | eslENORESULT | eslEOTHER nat

text \<open>
  A C \<^verbatim>\<open>double\<close>: a real number (rounding is not modelled) or one of the three IEEE
  exceptional values. The operations below are the ones the file applies to values that
  may be exceptional; a zero divisor is \<open>+0\<close> (every divisor of the file is converted from
  an \<^verbatim>\<open>int\<close> or comes out of a collaborator).
\<close>

datatype dbl = Fin real | PInf | MInf | NaN

fun dadd :: "dbl \<Rightarrow> dbl \<Rightarrow> dbl" where
  "dadd (Fin a) (Fin b) = Fin (a + b)"
| "dadd NaN _ = NaN"
| "dadd _ NaN = NaN"
| "dadd PInf MInf = NaN"
| "dadd MInf PInf = NaN"
| "dadd PInf _ = PInf"
| "dadd _ PInf = PInf"
| "dadd MInf _ = MInf"
| "dadd _ MInf = MInf"

fun dmul :: "dbl \<Rightarrow> dbl \<Rightarrow> dbl" where
  "dmul (Fin a) (Fin b) = Fin (a * b)"
| "dmul NaN _ = NaN"
| "dmul _ NaN = NaN"
| "dmul (Fin a) PInf = (if 0 < a then PInf else if a < 0 then MInf else NaN)"
| "dmul (Fin a) MInf = (if 0 < a then MInf else if a < 0 then PInf else NaN)"
| "dmul PInf (Fin b) = (if 0 < b then PInf else if b < 0 then MInf else NaN)"
| "dmul MInf (Fin b) = (if 0 < b then MInf else if b < 0 then PInf else NaN)"
| "dmul PInf PInf = PInf"
| "dmul MInf MInf = PInf"
| "dmul PInf MInf = MInf"
| "dmul MInf PInf = MInf"

fun ddiv :: "dbl \<Rightarrow> dbl \<Rightarrow> dbl" where
  "ddiv (Fin a) (Fin b) =
     (if b \<noteq> 0 then Fin (a / b)
      else if 0 < a then PInf else if a < 0 then MInf else NaN)"
| "ddiv NaN _ = NaN"
| "ddiv _ NaN = NaN"
| "ddiv (Fin a) PInf = Fin 0"
| "ddiv (Fin a) MInf = Fin 0"
| "ddiv PInf (Fin b) = (if 0 \<le> b then PInf else MInf)"
| "ddiv MInf (Fin b) = (if 0 \<le> b then MInf else PInf)"
| "ddiv PInf PInf = NaN"
| "ddiv PInf MInf = NaN"
| "ddiv MInf PInf = NaN"
| "ddiv MInf MInf = NaN"

fun dlog :: "dbl \<Rightarrow> dbl" where
  "dlog (Fin a) = (if 0 < a then Fin (ln a) else if a = 0 then MInf else NaN)"
| "dlog PInf = PInf"
| "dlog MInf = NaN"
| "dlog NaN = NaN"

fun dless :: "dbl \<Rightarrow> dbl \<Rightarrow> bool" where
  "dless (Fin a) (Fin b) = (a < b)"
| "dless NaN _ = False"
| "dless _ NaN = False"
| "dless MInf MInf = False"
| "dless MInf _ = True"
| "dless PInf _ = False"
| "dless (Fin a) PInf = True"
| "dless (Fin a) MInf = False"

text \<open>
  A C \<^verbatim>\<open>int\<close> is 32 bits wide. Signed overflow is undefined in C; the model takes the
  two's complement result, which is what the usual compilers emit. Integer division
  truncates toward zero.
\<close>

definition wrap32 :: "int \<Rightarrow> int" where
  "wrap32 i = (i + 2147483648) mod 4294967296 - 2147483648"

definition cdiv :: "int \<Rightarrow> int \<Rightarrow> int" where
  "cdiv a b = sgn a * sgn b * (\<bar>a\<bar> div \<bar>b\<bar>)"

text \<open>The conversion \<^verbatim>\<open>(int) x\<close> of a double in range: truncation toward zero.\<close>

definition trunc_int :: "real \<Rightarrow> int" where
  "trunc_int x = (if 0 \<le> x then \<lfloor>x\<rfloor> else \<lceil>x\<rceil>)"


section \<open>The data model\<close>

subsection \<open>Strategies and the alphabet\<close>

datatype p7_archchoice = p7_ARCH_FAST | p7_ARCH_HAND

datatype p7_wgtchoice = p7_WGT_NONE | p7_WGT_GIVEN | p7_WGT_GSC | p7_WGT_PB | p7_WGT_BLOSUM

datatype p7_effnchoice = p7_EFFN_NONE | p7_EFFN_SET | p7_EFFN_CLUST | p7_EFFN_ENTROPY

datatype esl_abc_type =
  eslUNKNOWN | eslRNA | eslDNA | eslAMINO | eslCOINS | eslDICE | eslNONSTANDARD

record ESL_ALPHABET =
  abc_type :: esl_abc_type
  abc_K :: nat

subsection \<open>Objects of the collaborators\<close>

text \<open>
  The random source: the seed it was last initialised with, and how many numbers of that
  seed's stream have been drawn since. The prior, the profile, the optimized profile and
  the open file parser are opaque to the builder: a handle each.
\<close>

record ESL_RANDOMNESS =
  rng_seed :: nat
  rng_used :: nat

type_synonym P7_PRIOR = nat
type_synonym P7_PROFILE = nat
type_synonym P7_OPROFILE = nat

record ESL_FILEPARSER =
  efp_handle :: nat
  efp_errbuf :: string

record ESL_SCOREMATRIX =
  sm_s :: "int list list"

record ESL_DMATRIX =
  dm_mx :: "dbl list list"

record P7_BG =
  bg_f :: "real list"

datatype cutoff_id = GA1 | GA2 | TC1 | TC2 | NC1 | NC2

record ESL_MSA =
  msa_aseq :: "string list"
  msa_wgt :: "real list"
  msa_nseq :: int
  msa_name :: "string option"
  msa_acc :: "string option"
  msa_desc :: "string option"
  msa_rf :: "string option"
  msa_cutset :: "cutoff_id \<Rightarrow> bool"
  msa_cutoff :: "cutoff_id \<Rightarrow> real"

record ESL_SQ =
  sq_name :: string
  sq_dsq :: "nat list"
  sq_n :: int

datatype p7H_flag = p7H_CHKSUM | p7H_COMPO | p7H_GA | p7H_TC | p7H_NC | p7H_OTHER nat

record P7_HMM =
  hmm_M :: int
  hmm_counts :: "dbl list"
  hmm_nseq :: int
  hmm_eff_nseq :: real
  hmm_name :: "string option"
  hmm_acc :: "string option"
  hmm_desc :: "string option"
  hmm_ctime :: "string option"
  hmm_compo :: "real list option"
  hmm_checksum :: nat
  hmm_evparam :: "real list"
  hmm_cutoff :: "cutoff_id \<Rightarrow> real"
  hmm_flags :: "p7H_flag set"

datatype p7t_state = p7T_B | p7T_M | p7T_E

record P7_TRACE =
  tr_path :: "(p7t_state \<times> int \<times> int) list"
  tr_M :: int
  tr_L :: int

subsection \<open>The build configuration\<close>

text \<open>
  The message buffer holds what \<^verbatim>\<open>esl_fail\<close> was given: the format string and its
  arguments. The empty buffer is \<open>([], [])\<close>.
\<close>

datatype fmtarg = ArgS string | ArgD int

type_synonym errbuf = "string \<times> fmtarg list"

record P7_BUILDER =
  bld_arch_strategy :: p7_archchoice
  bld_symfrac :: real
  bld_wgt_strategy :: p7_wgtchoice
  bld_wid :: real
  bld_pbswitch :: int
  bld_effn_strategy :: p7_effnchoice
  bld_re_target :: real
  bld_eX :: real
  bld_eid :: real
  bld_eset :: real
  bld_EvL :: int
  bld_EvN :: int
  bld_EfL :: int
  bld_EfN :: int
  bld_Eft :: real
  bld_r :: "ESL_RANDOMNESS option"
  bld_do_reseeding :: bool
  bld_prior :: "P7_PRIOR option"
  bld_abc :: ESL_ALPHABET
  bld_S :: "ESL_SCOREMATRIX option"
  bld_Q :: "ESL_DMATRIX option"
  bld_popen :: real
  bld_pextend :: real
  bld_errbuf :: errbuf

text \<open>The application's option set, through the four getters the builder uses.\<close>

record ESL_GETOPTS =
  esl_opt_GetBoolean :: "string \<Rightarrow> bool"
  esl_opt_IsOn :: "string \<Rightarrow> bool"
  esl_opt_GetReal :: "string \<Rightarrow> real"
  esl_opt_GetInteger :: "string \<Rightarrow> int"

text \<open>
  An optional return \<^verbatim>\<open>T **opt_x\<close>: the caller passes \<^verbatim>\<open>NULL\<close> (\<open>NotRequested\<close>) or the
  address of a variable of its own, whose current content is a pointer (\<open>None\<close> is
  \<^verbatim>\<open>NULL\<close>).
\<close>

datatype 'a outp = NotRequested | Slot "'a option"

fun store :: "'a outp \<Rightarrow> 'a option \<Rightarrow> 'a outp" where
  "store NotRequested v = NotRequested"
| "store (Slot old) v = Slot v"

fun requested :: "'a outp \<Rightarrow> bool" where
  "requested NotRequested = False"
| "requested (Slot v) = True"

subsection \<open>Calls to collaborators\<close>

text \<open>
  Every function of the file returns, beside its results, the calls it made to functions
  of other files, in order. A destructor is logged with the pointer it was given.
\<close>

datatype call =
    Call_esl_vec_DSet
  | Call_esl_msaweight_PB
  | Call_esl_msaweight_GSC
  | Call_esl_msaweight_BLOSUM real
  | Call_p7_Fastmodelmaker
  | Call_p7_Handmodelmaker
  | Call_esl_msacluster_SingleLinkage
  | Call_p7_EntropyWeight dbl
  | Call_p7_hmm_Scale dbl
  | Call_p7_ParameterEstimation
  | Call_p7_hmm_SetName
  | Call_p7_hmm_SetAccession
  | Call_p7_hmm_SetDescription
  | Call_p7_hmm_SetCtime
  | Call_esl_msa_Checksum
  | Call_p7_hmm_SetComposition
  | Call_p7_Calibrate
  | Call_p7_tracealign_MSA
  | Call_esl_msa_Destroy "ESL_MSA option"
  | Call_p7_Seqmodel
  | Call_p7_trace_Create
  | Call_p7_trace_Append p7t_state int int
  | Call_p7_hmm_Destroy "P7_HMM option"
  | Call_p7_trace_Destroy "P7_TRACE option"
  | Call_p7_trace_DestroyArray "P7_TRACE list option" int
  | Call_p7_profile_Destroy "P7_PROFILE option"
  | Call_p7_oprofile_Destroy "P7_OPROFILE option"
  | Call_esl_scorematrix_Destroy "ESL_SCOREMATRIX option"
  | Call_esl_dmatrix_Destroy "ESL_DMATRIX option"
  | Call_esl_scorematrix_Create
  | Call_esl_scorematrix_SetBLOSUM62
  | Call_esl_fileparser_Open string
  | Call_esl_sco_Read
  | Call_esl_fileparser_Close
  | Call_esl_scorematrix_IsSymmetric
  | Call_esl_sco_Probify
  | Call_p7_prior_Destroy "P7_PRIOR option"
  | Call_esl_randomness_Destroy "ESL_RANDOMNESS option"

subsection \<open>The collaborators\<close>

text \<open>
  The functions and constants of other files that \<^verbatim>\<open>p7_builder.c\<close> uses are parameters
  of the model: a record of them is the first argument of every function below. A
  function that returns through a pointer argument gives the pointer's new content as a
  further result; an argument it may change comes back changed.
\<close>

record ext =
  esl_randomness_Create :: "int \<Rightarrow> ESL_RANDOMNESS option"
  p7_prior_CreateAmino :: "P7_PRIOR option"
  p7_prior_CreateNucleic :: "P7_PRIOR option"
  p7_prior_CreateLaplace :: "ESL_ALPHABET \<Rightarrow> P7_PRIOR option"
  esl_scorematrix_Create :: "ESL_ALPHABET \<Rightarrow> ESL_SCOREMATRIX option"
  esl_scorematrix_SetBLOSUM62 :: "ESL_SCOREMATRIX \<Rightarrow> esl_status \<times> ESL_SCOREMATRIX"
  esl_fileparser_Open :: "string \<Rightarrow> string option \<Rightarrow> esl_status \<times> ESL_FILEPARSER option"
  esl_sco_Read ::
    "ESL_FILEPARSER \<Rightarrow> ESL_ALPHABET \<Rightarrow> ESL_SCOREMATRIX option
       \<Rightarrow> esl_status \<times> ESL_FILEPARSER \<times> ESL_SCOREMATRIX option"
  esl_scorematrix_IsSymmetric :: "ESL_SCOREMATRIX option \<Rightarrow> bool"
  esl_sco_Probify ::
    "ESL_SCOREMATRIX option
       \<Rightarrow> esl_status \<times> ESL_DMATRIX option \<times> dbl list option \<times> dbl list option \<times> dbl"
  esl_msaweight_PB :: "ESL_MSA \<Rightarrow> esl_status \<times> ESL_MSA"
  esl_msaweight_GSC :: "ESL_MSA \<Rightarrow> esl_status \<times> ESL_MSA"
  esl_msaweight_BLOSUM :: "ESL_MSA \<Rightarrow> real \<Rightarrow> esl_status \<times> ESL_MSA"
  p7_Fastmodelmaker ::
    "ESL_MSA \<Rightarrow> real \<Rightarrow> bool
       \<Rightarrow> esl_status \<times> ESL_MSA \<times> P7_HMM option \<times> P7_TRACE list option"
  p7_Handmodelmaker ::
    "ESL_MSA \<Rightarrow> bool \<Rightarrow> esl_status \<times> ESL_MSA \<times> P7_HMM option \<times> P7_TRACE list option"
  esl_msacluster_SingleLinkage :: "ESL_MSA \<Rightarrow> real \<Rightarrow> esl_status \<times> int"
  p7_EntropyWeight :: "P7_HMM \<Rightarrow> P7_BG \<Rightarrow> P7_PRIOR option \<Rightarrow> dbl \<Rightarrow> esl_status \<times> real"
  p7_hmm_Scale :: "P7_HMM \<Rightarrow> dbl \<Rightarrow> P7_HMM"
  p7_ParameterEstimation :: "P7_HMM \<Rightarrow> P7_PRIOR option \<Rightarrow> esl_status \<times> P7_HMM"
  p7_hmm_SetName :: "P7_HMM \<Rightarrow> string \<Rightarrow> esl_status \<times> P7_HMM"
  p7_hmm_SetAccession :: "P7_HMM \<Rightarrow> string option \<Rightarrow> esl_status \<times> P7_HMM"
  p7_hmm_SetDescription :: "P7_HMM \<Rightarrow> string option \<Rightarrow> esl_status \<times> P7_HMM"
  p7_hmm_SetCtime :: "P7_HMM \<Rightarrow> esl_status \<times> P7_HMM"
  esl_msa_Checksum :: "ESL_MSA \<Rightarrow> esl_status \<times> nat"
  p7_hmm_SetComposition :: "P7_HMM \<Rightarrow> esl_status \<times> P7_HMM"
  p7_Calibrate ::
    "P7_HMM \<Rightarrow> P7_BUILDER \<Rightarrow> P7_BG \<Rightarrow> bool \<Rightarrow> bool
       \<Rightarrow> esl_status \<times> P7_HMM \<times> P7_BUILDER \<times> P7_PROFILE option \<times> P7_OPROFILE option"
  p7_tracealign_MSA ::
    "ESL_MSA \<Rightarrow> P7_TRACE list option \<Rightarrow> int \<Rightarrow> esl_status \<times> ESL_MSA option"
  p7_Seqmodel ::
    "ESL_ALPHABET \<Rightarrow> nat list \<Rightarrow> int \<Rightarrow> string \<Rightarrow> ESL_DMATRIX option \<Rightarrow> real list
       \<Rightarrow> real \<Rightarrow> real \<Rightarrow> esl_status \<times> P7_HMM option"
  p7_trace_Create :: "P7_TRACE option"
  p7_trace_Append :: "P7_TRACE \<Rightarrow> p7t_state \<Rightarrow> int \<Rightarrow> int \<Rightarrow> esl_status \<times> P7_TRACE"
  p7_ETARGET_AMINO :: real
  p7_ETARGET_DNA :: real
  p7_ETARGET_OTHER :: real


section \<open>Internal functions\<close>

subsection \<open>relative_weights\<close>

text \<open>
  \<^verbatim>\<open>esl_vec_DSet(vec, n, value)\<close> stores \<open>value\<close> in \<^verbatim>\<open>vec[0..n-1]\<close>. The weight vector
  of an alignment has \<^verbatim>\<open>nseq\<close> entries.
\<close>

definition esl_vec_DSet :: "real list \<Rightarrow> int \<Rightarrow> real \<Rightarrow> real list" where
  "esl_vec_DSet vec n v = map (\<lambda>_. v) (take (nat n) vec) @ drop (nat n) vec"

text \<open>
  The strategy is one of five values, so the last branch of the chain is the BLOSUM one.
\<close>

definition relative_weights ::
  "ext \<Rightarrow> P7_BUILDER \<Rightarrow> ESL_MSA \<Rightarrow> esl_status \<times> P7_BUILDER \<times> ESL_MSA \<times> call list" where
  "relative_weights x bld msa =
     (let (status, msa', cs) =
        (if bld_wgt_strategy bld = p7_WGT_NONE then
           (eslOK, msa\<lparr>msa_wgt := esl_vec_DSet (msa_wgt msa) (msa_nseq msa) 1\<rparr>,
            [Call_esl_vec_DSet])
         else if bld_wgt_strategy bld = p7_WGT_GIVEN then (eslOK, msa, [])
         else if bld_pbswitch bld \<noteq> - 1 \<and> bld_pbswitch bld \<le> msa_nseq msa then
           (fst (esl_msaweight_PB x msa), snd (esl_msaweight_PB x msa), [Call_esl_msaweight_PB])
         else if bld_wgt_strategy bld = p7_WGT_PB then
           (fst (esl_msaweight_PB x msa), snd (esl_msaweight_PB x msa), [Call_esl_msaweight_PB])
         else if bld_wgt_strategy bld = p7_WGT_GSC then
           (fst (esl_msaweight_GSC x msa), snd (esl_msaweight_GSC x msa),
            [Call_esl_msaweight_GSC])
         else
           (fst (esl_msaweight_BLOSUM x msa (bld_wid bld)),
            snd (esl_msaweight_BLOSUM x msa (bld_wid bld)),
            [Call_esl_msaweight_BLOSUM (bld_wid bld)]))
      in if status \<noteq> eslOK then
           (status,
            bld\<lparr>bld_errbuf := (''failed to set relative weights in alignment'', [])\<rparr>,
            msa', cs)
         else (eslOK, bld, msa', cs))"

text \<open>The status, the alignment and the calls of a result of \<open>relative_weights\<close>.\<close>

definition rw_status :: "esl_status \<times> P7_BUILDER \<times> ESL_MSA \<times> call list \<Rightarrow> esl_status" where
  "rw_status r = fst r"

definition rw_msa :: "esl_status \<times> P7_BUILDER \<times> ESL_MSA \<times> call list \<Rightarrow> ESL_MSA" where
  "rw_msa r = fst (snd (snd r))"

definition rw_calls :: "esl_status \<times> P7_BUILDER \<times> ESL_MSA \<times> call list \<Rightarrow> call list" where
  "rw_calls r = snd (snd (snd r))"

subsection \<open>build_model\<close>



subsection \<open>default_target_relent\<close>

definition etarget_floor :: "ext \<Rightarrow> esl_abc_type \<Rightarrow> real" where
  "etarget_floor x t =
     (case t of
        eslAMINO \<Rightarrow> p7_ETARGET_AMINO x
      | eslDNA \<Rightarrow> p7_ETARGET_DNA x
      | eslRNA \<Rightarrow> p7_ETARGET_DNA x
      | _ \<Rightarrow> p7_ETARGET_OTHER x)"

definition default_target_relent :: "ext \<Rightarrow> P7_BUILDER \<Rightarrow> int \<Rightarrow> dbl" where
  "default_target_relent x bld M =
     (let etarget =
            ddiv (dmul (Fin 6)
                    (dadd (Fin (bld_eX bld))
                       (ddiv (dlog (Fin (real_of_int (cdiv (wrap32 (M * wrap32 (M + 1))) 2))))
                             (dlog (Fin 2)))))
                 (Fin (real_of_int (wrap32 (wrap32 (2 * M) + 4))));
          floor = Fin (etarget_floor x (abc_type (bld_abc bld)))
      in if dless etarget floor then floor else etarget)"

text \<open>
  The target as the spec writes it, over the reals:
  \<open>6 (offset + log2 (M (M + 1) / 2)) / (2 M + 4)\<close>.
\<close>

definition relent_formula :: "real \<Rightarrow> int \<Rightarrow> real" where
  "relent_formula offset M =
     6 * (offset + log 2 (real_of_int (M * (M + 1)) / 2)) / real_of_int (2 * M + 4)"

subsection \<open>effective_seqnumber\<close>

text \<open>
  The statement every successful branch falls through to:
  \<^verbatim>\<open>p7_hmm_Scale(hmm, hmm->eff_nseq / (double) hmm->nseq); return eslOK;\<close>
\<close>

definition effn_ratio :: "P7_HMM \<Rightarrow> dbl" where
  "effn_ratio hmm = ddiv (Fin (hmm_eff_nseq hmm)) (Fin (real_of_int (hmm_nseq hmm)))"

definition effn_rescale ::
  "ext \<Rightarrow> P7_BUILDER \<Rightarrow> P7_HMM \<Rightarrow> call list
     \<Rightarrow> esl_status \<times> P7_BUILDER \<times> P7_HMM \<times> call list" where
  "effn_rescale x bld hmm cs =
     (eslOK, bld, p7_hmm_Scale x hmm (effn_ratio hmm), cs @ [Call_p7_hmm_Scale (effn_ratio hmm)])"

definition effective_seqnumber ::
  "ext \<Rightarrow> P7_BUILDER \<Rightarrow> ESL_MSA \<Rightarrow> P7_HMM \<Rightarrow> P7_BG
     \<Rightarrow> esl_status \<times> P7_BUILDER \<times> P7_HMM \<times> call list" where
  "effective_seqnumber x bld msa hmm bg =
     (case bld_effn_strategy bld of
        p7_EFFN_NONE \<Rightarrow>
          effn_rescale x bld (hmm\<lparr>hmm_eff_nseq := real_of_int (msa_nseq msa)\<rparr>) []
      | p7_EFFN_SET \<Rightarrow>
          effn_rescale x bld (hmm\<lparr>hmm_eff_nseq := bld_eset bld\<rparr>) []
      | p7_EFFN_CLUST \<Rightarrow>
          (case esl_msacluster_SingleLinkage x msa (bld_eid bld) of
             (status, nclust) \<Rightarrow>
               if status = eslEMEM then
                 (status, bld\<lparr>bld_errbuf := (''memory allocation failed'', [])\<rparr>, hmm,
                  [Call_esl_msacluster_SingleLinkage])
               else if status \<noteq> eslOK then
                 (status,
                  bld\<lparr>bld_errbuf :=
                    (''single linkage clustering algorithm (at %d%% id) failed'',
                     [ArgD (trunc_int (100 * bld_eid bld))])\<rparr>,
                  hmm, [Call_esl_msacluster_SingleLinkage])
               else
                 effn_rescale x bld (hmm\<lparr>hmm_eff_nseq := real_of_int nclust\<rparr>)
                   [Call_esl_msacluster_SingleLinkage])
      | p7_EFFN_ENTROPY \<Rightarrow>
          (let etarget =
                 (if bld_re_target bld < 0 then default_target_relent x bld (hmm_M hmm)
                  else Fin (bld_re_target bld))
           in case p7_EntropyWeight x hmm bg (bld_prior bld) etarget of
                (status, eff_nseq) \<Rightarrow>
                  if status = eslEMEM then
                    (status, bld\<lparr>bld_errbuf := (''memory allocation failed'', [])\<rparr>, hmm,
                     [Call_p7_EntropyWeight etarget])
                  else if status \<noteq> eslOK then
                    (status,
                     bld\<lparr>bld_errbuf :=
                       (''internal failure in entropy weighting algorithm'', [])\<rparr>,
                     hmm, [Call_p7_EntropyWeight etarget])
                  else
                    effn_rescale x bld (hmm\<lparr>hmm_eff_nseq := eff_nseq\<rparr>)
                      [Call_p7_EntropyWeight etarget]))"

subsection \<open>parameterize\<close>


subsection \<open>annotate\<close>



subsection \<open>calibrate\<close>

text \<open>
  \<^verbatim>\<open>p7_Calibrate\<close> gets the model, the configuration (it reads the sample sizes and the
  reseeding flag, draws from \<^verbatim>\<open>bld->r\<close> and may write the message buffer), the null
  model and the two optional returns, which \<open>calibrate\<close> has set to \<^verbatim>\<open>NULL\<close> before.
\<close>

definition calibrate ::
  "ext \<Rightarrow> P7_BUILDER \<Rightarrow> P7_HMM \<Rightarrow> P7_BG \<Rightarrow> P7_PROFILE outp \<Rightarrow> P7_OPROFILE outp
     \<Rightarrow> esl_status \<times> P7_BUILDER \<times> P7_HMM \<times> P7_PROFILE outp \<times> P7_OPROFILE outp \<times> call list"
  where
  "calibrate x bld hmm bg opt_gm opt_om =
     (let gm0 = store opt_gm None;
          om0 = store opt_om None
      in case p7_Calibrate x hmm bld bg (requested gm0) (requested om0) of
           (status, hmm', bld', gm, om) \<Rightarrow>
             (status, bld', hmm', store gm0 gm, store om0 om, [Call_p7_Calibrate]))"

subsection \<open>make_post_msa\<close>



section \<open>Standardized model construction API\<close>

subsection \<open>p7_Builder\<close>













record builder_outs =
  opt_hmm :: "P7_HMM outp"
  opt_trarr :: "P7_TRACE list outp"
  opt_gm :: "P7_PROFILE outp"
  opt_om :: "P7_OPROFILE outp"
  opt_postmsa :: "ESL_MSA outp"


fun slot_content :: "'a outp \<Rightarrow> 'a option" where
  "slot_content (Slot v) = v"
| "slot_content NotRequested = None"






subsection \<open>p7_SingleBuilder\<close>

record single_outs =
  sopt_hmm :: "P7_HMM outp"
  sopt_tr :: "P7_TRACE outp"
  sopt_gm :: "P7_PROFILE outp"
  sopt_om :: "P7_OPROFILE outp"

record single_result =
  sres_status :: esl_status
  sres_bld :: P7_BUILDER
  sres_outs :: single_outs
  sres_calls :: "call list"

text \<open>The loop \<^verbatim>\<open>for (k = 1; k <= sq->n; k++)\<close> over \<^verbatim>\<open>p7_trace_Append(tr, p7T_M, k, k)\<close>.\<close>

function append_matches ::
  "ext \<Rightarrow> P7_TRACE \<Rightarrow> int \<Rightarrow> int \<Rightarrow> esl_status \<times> P7_TRACE \<times> call list" where
  "append_matches x tr k n =
     (if k \<le> n then
        (case p7_trace_Append x tr p7T_M k k of
           (status, tr') \<Rightarrow>
             if status \<noteq> eslOK then (status, tr', [Call_p7_trace_Append p7T_M k k])
             else
               (case append_matches x tr' (k + 1) n of
                  (status', tr'', cs) \<Rightarrow> (status', tr'', Call_p7_trace_Append p7T_M k k # cs)))
      else (eslOK, tr, []))"
  by pat_completeness auto
termination
  by (relation "measure (\<lambda>(x, tr, k, n). nat (n + 1 - k))") auto

text \<open>
  The block under \<^verbatim>\<open>if (opt_tr != NULL)\<close>. The first component is \<open>False\<close> where the C
  code jumps to \<^verbatim>\<open>ERROR\<close>; the status is then the one that \<^verbatim>\<open>status\<close> holds at the jump
  (when \<^verbatim>\<open>p7_trace_Create\<close> fails nothing assigns it, and it keeps the value \<open>status0\<close>
  it had on entry).
\<close>

definition faux_trace ::
  "ext \<Rightarrow> esl_status \<Rightarrow> int \<Rightarrow> bool \<times> esl_status \<times> P7_TRACE option \<times> call list" where
  "faux_trace x status0 n =
     (case p7_trace_Create x of
        None \<Rightarrow> (False, status0, None, [Call_p7_trace_Create])
      | Some t0 \<Rightarrow>
          (case p7_trace_Append x t0 p7T_B 0 0 of
             (s1, t1) \<Rightarrow>
               (let c1 = [Call_p7_trace_Create, Call_p7_trace_Append p7T_B 0 0]
                in if s1 \<noteq> eslOK then (False, s1, Some t1, c1)
                   else
                     (case append_matches x t1 1 n of
                        (s2, t2, c2) \<Rightarrow>
                          if s2 \<noteq> eslOK then (False, s2, Some t2, c1 @ c2)
                          else
                            (case p7_trace_Append x t2 p7T_E 0 0 of
                               (s3, t3) \<Rightarrow>
                                 (let c3 = c1 @ c2 @ [Call_p7_trace_Append p7T_E 0 0]
                                  in if s3 \<noteq> eslOK then (False, s3, Some t3, c3)
                                     else (True, s3, Some (t3\<lparr>tr_M := n, tr_L := n\<rparr>), c3)))))))"

text \<open>The statements under the label \<^verbatim>\<open>ERROR\<close> of \<^verbatim>\<open>p7_SingleBuilder\<close>.\<close>

definition single_error ::
  "single_outs \<Rightarrow> esl_status \<Rightarrow> P7_BUILDER \<Rightarrow> P7_HMM option \<Rightarrow> P7_TRACE option
     \<Rightarrow> P7_PROFILE outp \<Rightarrow> P7_OPROFILE outp \<Rightarrow> call list \<Rightarrow> single_result" where
  "single_error outs status bld hmm tr gm om cs =
     \<lparr>sres_status = status, sres_bld = bld,
      sres_outs = \<lparr>sopt_hmm = sopt_hmm outs, sopt_tr = sopt_tr outs, sopt_gm = gm, sopt_om = om\<rparr>,
      sres_calls =
        cs @ [Call_p7_hmm_Destroy hmm]
        @ (if tr \<noteq> None then [Call_p7_trace_Destroy tr] else [])
        @ (if requested gm then [Call_p7_profile_Destroy (slot_content gm)] else [])
        @ (if requested om then [Call_p7_oprofile_Destroy (slot_content om)] else [])\<rparr>"

definition single_return ::
  "single_outs \<Rightarrow> P7_BUILDER \<Rightarrow> P7_HMM \<Rightarrow> P7_TRACE option
     \<Rightarrow> P7_PROFILE outp \<Rightarrow> P7_OPROFILE outp \<Rightarrow> call list \<Rightarrow> single_result" where
  "single_return outs bld hmm tr gm om cs =
     \<lparr>sres_status = eslOK, sres_bld = bld,
      sres_outs =
        \<lparr>sopt_hmm = store (sopt_hmm outs) (Some hmm),
         sopt_tr = store (sopt_tr outs) tr, sopt_gm = gm, sopt_om = om\<rparr>,
      sres_calls =
        cs @ (if requested (sopt_hmm outs) then [] else [Call_p7_hmm_Destroy (Some hmm)])\<rparr>"

text \<open>
  \<^verbatim>\<open>ESL_XEXCEPTION\<close> hands the code to the exception handler and, when the handler
  returns, jumps to \<^verbatim>\<open>ERROR\<close> with \<^verbatim>\<open>status\<close> set; it does not write the message buffer.
  There is no result (\<open>None\<close>) where the C code has no defined behaviour: \<^verbatim>\<open>p7_Seqmodel\<close>
  reported \<open>eslOK\<close> and left no model, so that \<^verbatim>\<open>NULL\<close> would be calibrated, or the \<^verbatim>\<open>int\<close>
  counter \<^verbatim>\<open>k\<close> of the loop would pass \<^verbatim>\<open>INT_MAX\<close>.
\<close>

definition p7_SingleBuilder ::
  "ext \<Rightarrow> P7_BUILDER \<Rightarrow> ESL_SQ \<Rightarrow> P7_BG \<Rightarrow> single_outs \<Rightarrow> single_result option" where
  "p7_SingleBuilder x bld sq bg outs =
     (let bld0 = bld\<lparr>bld_errbuf := ([], [])\<rparr>
      in if bld_Q bld0 = None then
           Some (single_error outs eslEINVAL bld0 None None (sopt_gm outs) (sopt_om outs) [])
         else
           (case p7_Seqmodel x (bld_abc bld0) (sq_dsq sq) (sq_n sq) (sq_name sq) (bld_Q bld0)
                   (bg_f bg) (bld_popen bld0) (bld_pextend bld0) of
              (s1, hmm) \<Rightarrow>
                if s1 \<noteq> eslOK then
                  Some (single_error outs s1 bld0 hmm None (sopt_gm outs) (sopt_om outs)
                          [Call_p7_Seqmodel])
                else
                  (case hmm of
                     None \<Rightarrow> None
                   | Some h \<Rightarrow>
                       (case calibrate x bld0 h bg (sopt_gm outs) (sopt_om outs) of
                          (s2, bld1, h1, gm, om, c2) \<Rightarrow>
                            if s2 \<noteq> eslOK then
                              Some (single_error outs s2 bld1 (Some h1) None gm om
                                      (Call_p7_Seqmodel # c2))
                            else if requested (sopt_tr outs) then
                              (if 2147483647 \<le> sq_n sq then None
                               else
                                 (case faux_trace x s2 (sq_n sq) of
                                    (ok, s3, tr, c3) \<Rightarrow>
                                      if \<not> ok then
                                        Some (single_error outs s3 bld1 (Some h1) tr gm om
                                                (Call_p7_Seqmodel # c2 @ c3))
                                      else
                                        Some (single_return outs bld1 h1 tr gm om
                                                (Call_p7_Seqmodel # c2 @ c3))))
                            else
                              Some (single_return outs bld1 h1 None gm om
                                      (Call_p7_Seqmodel # c2))))))"


section \<open>P7_BUILDER: allocation, initialization\<close>

subsection \<open>p7_builder_Create\<close>

text \<open>
  \<open>go\<close> is \<open>None\<close> for \<^verbatim>\<open>NULL\<close>. \<open>raw\<close> is what \<^verbatim>\<open>ESL_ALLOC\<close> gives: \<open>None\<close> when the
  allocation fails, else the block as it comes, with whatever content; a field that
  no statement assigns keeps that content. The result is \<open>None\<close> where the function
  returns \<^verbatim>\<open>NULL\<close> (after \<^verbatim>\<open>p7_builder_Destroy\<close>, when no prior could be made).
\<close>

definition create_strategies :: "ESL_GETOPTS \<Rightarrow> P7_BUILDER \<Rightarrow> P7_BUILDER" where
  "create_strategies go b =
     (let b1 = (if esl_opt_GetBoolean go ''--fast'' then b\<lparr>bld_arch_strategy := p7_ARCH_FAST\<rparr>
                else if esl_opt_GetBoolean go ''--hand'' then
                  b\<lparr>bld_arch_strategy := p7_ARCH_HAND\<rparr>
                else b);
          b2 = (if esl_opt_GetBoolean go ''--wgsc'' then b1\<lparr>bld_wgt_strategy := p7_WGT_GSC\<rparr>
                else if esl_opt_GetBoolean go ''--wblosum'' then
                  b1\<lparr>bld_wgt_strategy := p7_WGT_BLOSUM\<rparr>
                else if esl_opt_GetBoolean go ''--wpb'' then
                  b1\<lparr>bld_wgt_strategy := p7_WGT_PB\<rparr>
                else if esl_opt_GetBoolean go ''--wnone'' then
                  b1\<lparr>bld_wgt_strategy := p7_WGT_NONE\<rparr>
                else if esl_opt_GetBoolean go ''--wgiven'' then
                  b1\<lparr>bld_wgt_strategy := p7_WGT_GIVEN\<rparr>
                else b1)
      in if esl_opt_GetBoolean go ''--eent'' then b2\<lparr>bld_effn_strategy := p7_EFFN_ENTROPY\<rparr>
         else if esl_opt_GetBoolean go ''--eclust'' then
           b2\<lparr>bld_effn_strategy := p7_EFFN_CLUST\<rparr>
         else if esl_opt_GetBoolean go ''--enone'' then
           b2\<lparr>bld_effn_strategy := p7_EFFN_NONE\<rparr>
         else if esl_opt_IsOn go ''--eset'' then
           b2\<lparr>bld_effn_strategy := p7_EFFN_SET, bld_eset := esl_opt_GetReal go ''--eset''\<rparr>
         else b2)"

text \<open>The chain of the effective-number flags reaches its \<^verbatim>\<open>--eset\<close> branch.\<close>

definition eset_chosen :: "ESL_GETOPTS \<Rightarrow> bool" where
  "eset_chosen g =
     (\<not> esl_opt_GetBoolean g ''--eent'' \<and> \<not> esl_opt_GetBoolean g ''--eclust''
      \<and> \<not> esl_opt_GetBoolean g ''--enone'' \<and> esl_opt_IsOn g ''--eset'')"

text \<open>The local \<^verbatim>\<open>seed\<close>: 0 without an option set, else the value of \<^verbatim>\<open>--seed\<close>.\<close>

definition create_seed :: "ESL_GETOPTS option \<Rightarrow> int" where
  "create_seed go = (case go of None \<Rightarrow> 0 | Some g \<Rightarrow> esl_opt_GetInteger g ''--seed'')"

definition create_prior :: "ext \<Rightarrow> ESL_ALPHABET \<Rightarrow> P7_PRIOR option" where
  "create_prior x abc =
     (case abc_type abc of
        eslAMINO \<Rightarrow> p7_prior_CreateAmino x
      | eslDNA \<Rightarrow> p7_prior_CreateNucleic x
      | eslRNA \<Rightarrow> p7_prior_CreateNucleic x
      | _ \<Rightarrow> p7_prior_CreateLaplace x abc)"

definition p7_builder_Create ::
  "ext \<Rightarrow> ESL_GETOPTS option \<Rightarrow> ESL_ALPHABET \<Rightarrow> P7_BUILDER option \<Rightarrow> P7_BUILDER option"
  where
  "p7_builder_Create x go abc raw =
     (case raw of
        None \<Rightarrow> None
      | Some b0 \<Rightarrow>
          (let b1 = b0\<lparr>bld_prior := None, bld_r := None, bld_S := None, bld_Q := None,
                       bld_eset := - 1, bld_re_target := - 1\<rparr>;
               b2 = (case go of
                       None \<Rightarrow>
                         b1\<lparr>bld_arch_strategy := p7_ARCH_FAST, bld_wgt_strategy := p7_WGT_GSC,
                            bld_effn_strategy := p7_EFFN_ENTROPY\<rparr>
                     | Some g \<Rightarrow> create_strategies g b1);
               seed = create_seed go;
               b3 = b2\<lparr>
                 bld_symfrac := (case go of Some g \<Rightarrow> esl_opt_GetReal g ''--symfrac''
                                 | None \<Rightarrow> 0.5),
                 bld_pbswitch := (case go of Some g \<Rightarrow> esl_opt_GetInteger g ''--pbswitch''
                                  | None \<Rightarrow> 1000),
                 bld_wid := (case go of Some g \<Rightarrow> esl_opt_GetReal g ''--wid'' | None \<Rightarrow> 0.62),
                 bld_re_target :=
                   (case go of
                      Some g \<Rightarrow> if esl_opt_IsOn g ''--ere'' then esl_opt_GetReal g ''--ere''
                                else - 1
                    | None \<Rightarrow> - 1),
                 bld_eX := (case go of Some g \<Rightarrow> esl_opt_GetReal g ''--eX'' | None \<Rightarrow> 6),
                 bld_eid := (case go of Some g \<Rightarrow> esl_opt_GetReal g ''--eid'' | None \<Rightarrow> 0.62),
                 bld_EvL := (case go of Some g \<Rightarrow> esl_opt_GetInteger g ''--EvL'' | None \<Rightarrow> 100),
                 bld_EvN := (case go of Some g \<Rightarrow> esl_opt_GetInteger g ''--EvN'' | None \<Rightarrow> 200),
                 bld_EfL := (case go of Some g \<Rightarrow> esl_opt_GetInteger g ''--EfL'' | None \<Rightarrow> 100),
                 bld_EfN := (case go of Some g \<Rightarrow> esl_opt_GetInteger g ''--EfN'' | None \<Rightarrow> 200),
                 bld_Eft := (case go of Some g \<Rightarrow> esl_opt_GetReal g ''--Eft'' | None \<Rightarrow> 0.04)\<rparr>;
               b4 = b3\<lparr>bld_r := esl_randomness_Create x seed,
                       bld_do_reseeding := (if seed = 0 then False else True)\<rparr>;
               b5 = b4\<lparr>bld_prior := create_prior x abc\<rparr>
           in if bld_prior b5 = None then None
              else Some (b5\<lparr>bld_abc := abc, bld_errbuf := ([], [])\<rparr>)))"

subsection \<open>p7_builder_Destroy\<close>

text \<open>The destructors called on a configuration (\<open>None\<close> is \<^verbatim>\<open>NULL\<close>), in order.\<close>

definition p7_builder_Destroy :: "P7_BUILDER option \<Rightarrow> call list" where
  "p7_builder_Destroy p =
     (case p of
        None \<Rightarrow> []
      | Some bld \<Rightarrow>
          (if bld_prior bld \<noteq> None then [Call_p7_prior_Destroy (bld_prior bld)] else [])
          @ (if bld_r bld \<noteq> None then [Call_esl_randomness_Destroy (bld_r bld)] else [])
          @ (if bld_Q bld \<noteq> None then [Call_esl_dmatrix_Destroy (bld_Q bld)] else [])
          @ (if bld_S bld \<noteq> None then [Call_esl_scorematrix_Destroy (bld_S bld)] else []))"

subsection \<open>p7_builder_SetScoreSystem\<close>

text \<open>
  The block that gets the scoring matrix: \<open>Inr\<close> the configuration holding the matrix and
  the calls made, or \<open>Inl\<close> what the function returns from there. \<^verbatim>\<open>bld->S\<close> and
  \<^verbatim>\<open>bld->Q\<close> are destroyed, not reset, before. There is no result (\<open>None\<close>) where the
  message would be read from a file parser that is \<^verbatim>\<open>NULL\<close>.
\<close>

definition get_score_matrix ::
  "ext \<Rightarrow> P7_BUILDER \<Rightarrow> string option \<Rightarrow> string option
     \<Rightarrow> ((esl_status \<times> P7_BUILDER \<times> call list) + (P7_BUILDER \<times> call list)) option" where
  "get_score_matrix x bld mxfile env =
     (let b0 = bld\<lparr>bld_errbuf := ([], [])\<rparr>;
          c0 = (if bld_S b0 \<noteq> None then [Call_esl_scorematrix_Destroy (bld_S b0)] else [])
               @ (if bld_Q b0 \<noteq> None then [Call_esl_dmatrix_Destroy (bld_Q b0)] else []);
          b1 = b0\<lparr>bld_S := esl_scorematrix_Create x (bld_abc b0)\<rparr>;
          c1 = c0 @ [Call_esl_scorematrix_Create]
      in case bld_S b1 of
           None \<Rightarrow> Some (Inl (eslEMEM, b1, c1))
         | Some S1 \<Rightarrow>
             (case mxfile of
                None \<Rightarrow>
                  (case esl_scorematrix_SetBLOSUM62 x S1 of
                     (status, S2) \<Rightarrow>
                       if status \<noteq> eslOK then
                         Some (Inl (status, b1\<lparr>bld_S := Some S2\<rparr>,
                                    c1 @ [Call_esl_scorematrix_SetBLOSUM62]))
                       else
                         Some (Inr (b1\<lparr>bld_S := Some S2\<rparr>,
                                    c1 @ [Call_esl_scorematrix_SetBLOSUM62])))
              | Some file \<Rightarrow>
                  (case esl_fileparser_Open x file env of
                     (status, efp) \<Rightarrow>
                       if status \<noteq> eslOK then
                         Some (Inl (status,
                                    b1\<lparr>bld_errbuf :=
                                         (''Failed to find or open matrix file %s'', [ArgS file])\<rparr>,
                                    c1 @ [Call_esl_fileparser_Open file]
                                    @ (if efp \<noteq> None then [Call_esl_fileparser_Close] else [])))
                       else
                         (case efp of
                            None \<Rightarrow> None
                          | Some e \<Rightarrow>
                              (case esl_sco_Read x e (bld_abc b1) (bld_S b1) of
                                 (status', e', S2) \<Rightarrow>
                                   if status' \<noteq> eslOK then
                                     Some (Inl (status',
                                                b1\<lparr>bld_S := S2,
                                                   bld_errbuf :=
                                                     (''Failed to read matrix from %s:\<newline>%s'',
                                                      [ArgS file, ArgS (efp_errbuf e')])\<rparr>,
                                                c1 @ [Call_esl_fileparser_Open file,
                                                      Call_esl_sco_Read,
                                                      Call_esl_fileparser_Close]))
                                   else
                                     Some (Inr (b1\<lparr>bld_S := S2\<rparr>,
                                                c1 @ [Call_esl_fileparser_Open file,
                                                      Call_esl_sco_Read,
                                                      Call_esl_fileparser_Close])))))))"

text \<open>
  The two loops \<^verbatim>\<open>Q->mx[a][b] /= fa[a]\<close> for \<open>a, b < K\<close>; every entry is visited once.
  \<open>rows_fit\<close> says that no index of the loops is out of range.
\<close>

definition rows_fit :: "nat \<Rightarrow> dbl list list \<Rightarrow> dbl list \<Rightarrow> bool" where
  "rows_fit K mx fa =
     (K \<le> length mx \<and> K \<le> length fa \<and> list_all (\<lambda>row. K \<le> length row) (take K mx))"

definition normalize_rows :: "nat \<Rightarrow> dbl list list \<Rightarrow> dbl list \<Rightarrow> dbl list list" where
  "normalize_rows K mx fa =
     map (\<lambda>a. if a < K then
                 map (\<lambda>b. if b < K then ddiv (mx ! a ! b) (fa ! a) else mx ! a ! b)
                   [0..<length (mx ! a)]
               else mx ! a)
       [0..<length mx]"

text \<open>
  There is no result (\<open>None\<close>) where a loop would read through \<^verbatim>\<open>NULL\<close> or out of range:
  \<^verbatim>\<open>esl_sco_Probify\<close> reported \<open>eslOK\<close> and left no \<open>Q\<close> or no \<open>fa\<close>, or they are smaller
  than the alphabet.
\<close>

definition p7_builder_SetScoreSystem ::
  "ext \<Rightarrow> P7_BUILDER \<Rightarrow> string option \<Rightarrow> string option \<Rightarrow> real \<Rightarrow> real
     \<Rightarrow> (esl_status \<times> P7_BUILDER \<times> call list) option" where
  "p7_builder_SetScoreSystem x bld mxfile env popen pextend =
     (case get_score_matrix x bld mxfile env of
        None \<Rightarrow> None
      | Some (Inl failed) \<Rightarrow> Some failed
      | Some (Inr (b2, c2)) \<Rightarrow>
          if \<not> esl_scorematrix_IsSymmetric x (bld_S b2) then
            Some (eslEINVAL, b2\<lparr>bld_errbuf := (''Matrix isn't symmetric'', [])\<rparr>,
                  c2 @ [Call_esl_scorematrix_IsSymmetric])
          else
            (case esl_sco_Probify x (bld_S b2) of
               (status, Q, fa, fb, slambda) \<Rightarrow>
                 (let c3 = c2 @ [Call_esl_scorematrix_IsSymmetric, Call_esl_sco_Probify]
                  in if status \<noteq> eslOK then
                       Some (eslEINVAL,
                             b2\<lparr>bld_Q := Q,
                                bld_errbuf :=
                                  (''Yu/Altschul method failed to backcalculate probabilistic basis of score matrix'',
                                   [])\<rparr>,
                             c3)
                     else
                       (case (Q, fa) of
                          (Some q, Some f) \<Rightarrow>
                            if rows_fit (abc_K (bld_abc b2)) (dm_mx q) f then
                              Some (eslOK,
                                    b2\<lparr>bld_Q :=
                                         Some (q\<lparr>dm_mx :=
                                                   normalize_rows (abc_K (bld_abc b2)) (dm_mx q) f\<rparr>),
                                       bld_popen := popen, bld_pextend := pextend\<rparr>,
                                    c3)
                            else None
                        | _ \<Rightarrow> None))))"


section \<open>The random source and the calibration routine\<close>

text \<open>
  Modelled from the spec: \<^verbatim>\<open>esl_randomness_Create\<close> is not in the sources at hand. The
  spec has: \<open>Random source is (re)seeded with the resolved seed; seed value 0 is a
  sentinel meaning "choose arbitrarily and disable reseeding"\<close>. The arbitrary choice is
  the parameter \<open>arb\<close>.
\<close>

definition esl_randomness_Create_spec :: "nat \<Rightarrow> int \<Rightarrow> ESL_RANDOMNESS option" where
  "esl_randomness_Create_spec arb seed =
     Some \<lparr>rng_seed = (if seed = 0 then arb else nat seed), rng_used = 0\<rparr>"

text \<open>
  Modelled from the spec: \<^verbatim>\<open>p7_Calibrate\<close> is not in the sources at hand. The spec has:
  \<open>run an external calibration routine that performs two short randomized simulations
  (using the configuration's random source, reseeded deterministically per the reseed
  flag) to fit the model's statistical significance parameters, and optionally
  materialize a search profile and/or an optimized profile\<close>, and: \<open>The random source is
  deterministically reseeded immediately before each calibration run when the "reseed"
  flag is set; when reseeding is disabled, successive calibrations consume the same
  continuing random stream\<close>. The simulations are the parameter \<open>sim\<close>: from the model, the
  null model, the five calibration parameters and the random source as it stands they
  give the status, the fitted parameters, the random source afterwards and the two
  profiles.
\<close>

type_synonym simulation =
  "P7_HMM \<Rightarrow> P7_BG \<Rightarrow> int \<times> int \<times> int \<times> int \<times> real \<Rightarrow> ESL_RANDOMNESS option
     \<Rightarrow> esl_status \<times> real list \<times> ESL_RANDOMNESS option \<times> P7_PROFILE option \<times> P7_OPROFILE option"

text \<open>
  Modelled from the spec: reseeding puts the random source back at the start of the
  stream of its seed.
\<close>

definition reseed :: "ESL_RANDOMNESS \<Rightarrow> ESL_RANDOMNESS" where
  "reseed r = r\<lparr>rng_used := 0\<rparr>"

definition p7_Calibrate_spec ::
  "simulation \<Rightarrow> P7_HMM \<Rightarrow> P7_BUILDER \<Rightarrow> P7_BG \<Rightarrow> bool \<Rightarrow> bool
     \<Rightarrow> esl_status \<times> P7_HMM \<times> P7_BUILDER \<times> P7_PROFILE option \<times> P7_OPROFILE option" where
  "p7_Calibrate_spec sim hmm bld bg want_gm want_om =
     (let r = (if bld_do_reseeding bld then map_option reseed (bld_r bld) else bld_r bld)
      in case sim hmm bg (bld_EvL bld, bld_EvN bld, bld_EfL bld, bld_EfN bld, bld_Eft bld) r of
           (status, evparam, r', gm, om) \<Rightarrow>
             (status, hmm\<lparr>hmm_evparam := evparam\<rparr>, bld\<lparr>bld_r := r'\<rparr>,
              if want_gm then gm else None, if want_om then om else None))"

text \<open>The collaborators \<open>x\<close>, with the random source and the calibration routine of the spec.\<close>

definition spec_ext :: "ext \<Rightarrow> nat \<Rightarrow> simulation \<Rightarrow> ext" where
  "spec_ext x arb sim =
     x\<lparr>esl_randomness_Create := esl_randomness_Create_spec arb,
       p7_Calibrate := p7_Calibrate_spec sim\<rparr>"



section \<open>Sample inputs\<close>

text \<open>
  A small world to run the functions in: a two-letter alphabet, an alignment of three
  rows, and collaborators that do something simple. The model maker finds no consensus
  column in an alignment without rows; the trace functions append to a list.
\<close>

definition demo_abc :: ESL_ALPHABET where
  "demo_abc = \<lparr>abc_type = eslAMINO, abc_K = 2\<rparr>"

definition demo_msa :: ESL_MSA where
  "demo_msa =
     \<lparr>msa_aseq = [''AB'', ''AA'', ''AB''], msa_wgt = [1, 1, 1], msa_nseq = 3,
      msa_name = Some ''fam'', msa_acc = None, msa_desc = None, msa_rf = None,
      msa_cutset = (\<lambda>c. False), msa_cutoff = (\<lambda>c. 0)\<rparr>"

definition demo_hmm :: P7_HMM where
  "demo_hmm =
     \<lparr>hmm_M = 2, hmm_counts = [Fin 3, Fin 0, Fin 1, Fin 2], hmm_nseq = 3, hmm_eff_nseq = 3,
      hmm_name = None, hmm_acc = None, hmm_desc = None, hmm_ctime = None, hmm_compo = None,
      hmm_checksum = 0, hmm_evparam = [], hmm_cutoff = (\<lambda>c. 0), hmm_flags = {}\<rparr>"

definition demo_bg :: P7_BG where
  "demo_bg = \<lparr>bg_f = [1 / 2, 1 / 2]\<rparr>"

definition demo_sq :: ESL_SQ where
  "demo_sq = \<lparr>sq_name = ''query'', sq_dsq = [0, 1, 0], sq_n = 3\<rparr>"

definition demo_sim :: simulation where
  "demo_sim hmm bg p r =
     (eslOK,
      [real (case r of Some s \<Rightarrow> rng_seed s + rng_used s | None \<Rightarrow> 0)],
      map_option (\<lambda>s. s\<lparr>rng_used := rng_used s + 1\<rparr>) r,
      Some 1, Some 2)"

definition demo_ext :: ext where
  "demo_ext =
     \<lparr>esl_randomness_Create = esl_randomness_Create_spec 7,
      p7_prior_CreateAmino = Some 1,
      p7_prior_CreateNucleic = Some 2,
      p7_prior_CreateLaplace = (\<lambda>abc. Some 3),
      esl_scorematrix_Create = (\<lambda>abc. Some \<lparr>sm_s = [[0, 0], [0, 0]]\<rparr>),
      esl_scorematrix_SetBLOSUM62 = (\<lambda>S. (eslOK, \<lparr>sm_s = [[4, - 1], [- 1, 5]]\<rparr>)),
      esl_fileparser_Open =
        (\<lambda>file env. if file = ''skew.mat'' then (eslOK, Some \<lparr>efp_handle = 1, efp_errbuf = []\<rparr>)
                     else (eslENOTFOUND, None)),
      esl_sco_Read = (\<lambda>e abc S. (eslOK, e, Some \<lparr>sm_s = [[4, - 1], [0, 5]]\<rparr>)),
      esl_scorematrix_IsSymmetric =
        (\<lambda>S. case S of None \<Rightarrow> False | Some m \<Rightarrow> sm_s m = List.transpose (sm_s m)),
      esl_sco_Probify =
        (\<lambda>S. (eslOK, Some \<lparr>dm_mx = [[Fin (3 / 10), Fin (2 / 10)], [Fin (2 / 10), Fin (3 / 10)]]\<rparr>,
               Some [Fin (1 / 2), Fin (1 / 2)], Some [Fin (1 / 2), Fin (1 / 2)], Fin (3 / 10))),
      esl_msaweight_PB = (\<lambda>msa. (eslOK, msa)),
      esl_msaweight_GSC = (\<lambda>msa. (eslOK, msa)),
      esl_msaweight_BLOSUM = (\<lambda>msa wid. (eslOK, msa)),
      p7_Fastmodelmaker =
        (\<lambda>msa symfrac want_tr.
           if msa_aseq msa = [] then (eslENORESULT, msa, None, None)
           else (eslOK, msa, Some demo_hmm, if want_tr then Some [] else None)),
      p7_Handmodelmaker =
        (\<lambda>msa want_tr.
           if msa_rf msa = None then (eslEFORMAT, msa, None, None)
           else (eslOK, msa, Some demo_hmm, if want_tr then Some [] else None)),
      esl_msacluster_SingleLinkage = (\<lambda>msa eid. (eslOK, 2)),
      p7_EntropyWeight = (\<lambda>hmm bg pri etarget. (eslOK, 3 / 2)),
      p7_hmm_Scale = (\<lambda>hmm s. hmm\<lparr>hmm_counts := map (\<lambda>c. dmul c s) (hmm_counts hmm)\<rparr>),
      p7_ParameterEstimation = (\<lambda>hmm pri. (eslOK, hmm)),
      p7_hmm_SetName = (\<lambda>hmm n. (eslOK, hmm\<lparr>hmm_name := Some n\<rparr>)),
      p7_hmm_SetAccession = (\<lambda>hmm a. (eslOK, hmm\<lparr>hmm_acc := a\<rparr>)),
      p7_hmm_SetDescription = (\<lambda>hmm d. (eslOK, hmm\<lparr>hmm_desc := d\<rparr>)),
      p7_hmm_SetCtime = (\<lambda>hmm. (eslOK, hmm\<lparr>hmm_ctime := Some ''now''\<rparr>)),
      esl_msa_Checksum = (\<lambda>msa. (eslOK, length (msa_aseq msa))),
      p7_hmm_SetComposition = (\<lambda>hmm. (eslOK, hmm\<lparr>hmm_compo := Some [1 / 2, 1 / 2]\<rparr>)),
      p7_Calibrate = p7_Calibrate_spec demo_sim,
      p7_tracealign_MSA = (\<lambda>msa tr M. (eslOK, Some msa)),
      p7_Seqmodel =
        (\<lambda>abc dsq n name Q f popen pextend. (eslOK, Some (demo_hmm\<lparr>hmm_M := n, hmm_nseq := 1\<rparr>))),
      p7_trace_Create = Some \<lparr>tr_path = [], tr_M = 0, tr_L = 0\<rparr>,
      p7_trace_Append = (\<lambda>tr st k i. (eslOK, tr\<lparr>tr_path := tr_path tr @ [(st, k, i)]\<rparr>)),
      p7_ETARGET_AMINO = 59 / 100,
      p7_ETARGET_DNA = 62 / 100,
      p7_ETARGET_OTHER = 1\<rparr>"

text \<open>A block of memory as it may come from the allocator, and the default configuration.\<close>

definition demo_raw :: P7_BUILDER where
  "demo_raw =
     \<lparr>bld_arch_strategy = p7_ARCH_HAND, bld_symfrac = 0, bld_wgt_strategy = p7_WGT_NONE,
      bld_wid = 0, bld_pbswitch = 0, bld_effn_strategy = p7_EFFN_NONE, bld_re_target = 0,
      bld_eX = 0, bld_eid = 0, bld_eset = 0, bld_EvL = 0, bld_EvN = 0, bld_EfL = 0,
      bld_EfN = 0, bld_Eft = 0, bld_r = None, bld_do_reseeding = False, bld_prior = None,
      bld_abc = \<lparr>abc_type = eslUNKNOWN, abc_K = 0\<rparr>, bld_S = None, bld_Q = None,
      bld_popen = 0, bld_pextend = 0, bld_errbuf = ([], [])\<rparr>"

definition demo_bld :: P7_BUILDER where
  "demo_bld =
     \<lparr>bld_arch_strategy = p7_ARCH_FAST, bld_symfrac = 1 / 2, bld_wgt_strategy = p7_WGT_GSC,
      bld_wid = 62 / 100, bld_pbswitch = 1000, bld_effn_strategy = p7_EFFN_ENTROPY,
      bld_re_target = - 1, bld_eX = 6, bld_eid = 62 / 100, bld_eset = - 1, bld_EvL = 100,
      bld_EvN = 200, bld_EfL = 100, bld_EfN = 200, bld_Eft = 4 / 100,
      bld_r = Some \<lparr>rng_seed = 7, rng_used = 0\<rparr>, bld_do_reseeding = False,
      bld_prior = Some 1, bld_abc = demo_abc, bld_S = None, bld_Q = None,
      bld_popen = 0, bld_pextend = 0, bld_errbuf = ([], [])\<rparr>"

text \<open>An option set: every flag off, every number zero, but for what \<open>on\<close> and \<open>num\<close> give.\<close>

definition demo_go :: "string list \<Rightarrow> (string \<times> real) list \<Rightarrow> (string \<times> int) list \<Rightarrow> ESL_GETOPTS"
  where
  "demo_go on reals ints =
     \<lparr>esl_opt_GetBoolean = (\<lambda>opt. opt \<in> set on),
      esl_opt_IsOn = (\<lambda>opt. opt \<in> set on),
      esl_opt_GetReal = (\<lambda>opt. case map_of reals opt of Some v \<Rightarrow> v | None \<Rightarrow> 0),
      esl_opt_GetInteger = (\<lambda>opt. case map_of ints opt of Some v \<Rightarrow> v | None \<Rightarrow> 0)\<rparr>"


definition all_single_outs :: single_outs where
  "all_single_outs =
     \<lparr>sopt_hmm = Slot None, sopt_tr = Slot None, sopt_gm = Slot None, sopt_om = Slot None\<rparr>"

text \<open>An option set that asks for the set-value strategy with \<^verbatim>\<open>--eset -3\<close> and the seed 42.\<close>

definition demo_go_eset :: ESL_GETOPTS where
  "demo_go_eset =
     demo_go [''--fast'', ''--wgsc'', ''--eset''] [(''--eset'', - 3), (''--symfrac'', 1 / 2)]
       [(''--seed'', 42), (''--pbswitch'', 1000)]"


section \<open>Properties of the weighting stage\<close>

lemma esl_vec_DSet_all:
  "length vec = nat n \<Longrightarrow> esl_vec_DSet vec n v = replicate (nat n) v"
  by (simp add: esl_vec_DSet_def map_replicate_const)

text \<open>
  C3, as amended. When the switch-over threshold \<open>pbswitch\<close> is not \<open>-1\<close> and the alignment
  has at least \<open>pbswitch\<close> sequences, \<open>relative_weights\<close> runs the position-based algorithm
  whatever strategy is configured among position-based, GSC and BLOSUM: the one call it
  makes is \<^verbatim>\<open>esl_msaweight_PB\<close>, whose status and alignment it passes on. Under the
  strategy \<open>none\<close> it sets the weights to 1 and under \<open>given\<close> it leaves the alignment as
  it is, calling no weighting algorithm in either case.
\<close>

theorem relative_weights_override:
  "(bld_pbswitch bld \<noteq> - 1 \<and> bld_pbswitch bld \<le> msa_nseq msa
      \<and> bld_wgt_strategy bld \<noteq> p7_WGT_NONE \<and> bld_wgt_strategy bld \<noteq> p7_WGT_GIVEN
    \<longrightarrow> rw_calls (relative_weights x bld msa) = [Call_esl_msaweight_PB]
        \<and> rw_status (relative_weights x bld msa) = fst (esl_msaweight_PB x msa)
        \<and> rw_msa (relative_weights x bld msa) = snd (esl_msaweight_PB x msa))
   \<and> (bld_wgt_strategy bld = p7_WGT_NONE
    \<longrightarrow> rw_calls (relative_weights x bld msa) = [Call_esl_vec_DSet]
        \<and> rw_status (relative_weights x bld msa) = eslOK
        \<and> rw_msa (relative_weights x bld msa)
            = msa\<lparr>msa_wgt := esl_vec_DSet (msa_wgt msa) (msa_nseq msa) 1\<rparr>
        \<and> (length (msa_wgt msa) = nat (msa_nseq msa)
           \<longrightarrow> msa_wgt (rw_msa (relative_weights x bld msa)) = replicate (nat (msa_nseq msa)) 1))
   \<and> (bld_wgt_strategy bld = p7_WGT_GIVEN
    \<longrightarrow> rw_calls (relative_weights x bld msa) = []
        \<and> rw_status (relative_weights x bld msa) = eslOK
        \<and> rw_msa (relative_weights x bld msa) = msa)"
  by (simp add: relative_weights_def rw_calls_def rw_status_def rw_msa_def esl_vec_DSet_all)

text \<open>
  The three cases at sample inputs: a GSC configuration with threshold 1000 on 1000
  sequences, and the strategies \<open>none\<close> and \<open>given\<close> on three sequences with unequal weights.
\<close>

theorem relative_weights_override_witness:
  "rw_calls (relative_weights demo_ext demo_bld (demo_msa\<lparr>msa_nseq := 1000\<rparr>))
     = [Call_esl_msaweight_PB]
   \<and> msa_wgt (rw_msa (relative_weights demo_ext (demo_bld\<lparr>bld_wgt_strategy := p7_WGT_NONE\<rparr>)
        (demo_msa\<lparr>msa_wgt := [1 / 2, 1 / 4, 1 / 4]\<rparr>))) = [1, 1, 1]
   \<and> rw_msa (relative_weights demo_ext (demo_bld\<lparr>bld_wgt_strategy := p7_WGT_GIVEN\<rparr>)
        (demo_msa\<lparr>msa_wgt := [1 / 2, 1 / 4, 1 / 4]\<rparr>)) = demo_msa\<lparr>msa_wgt := [1 / 2, 1 / 4, 1 / 4]\<rparr>"
proof -
  have pb: "rw_calls (relative_weights demo_ext demo_bld (demo_msa\<lparr>msa_nseq := 1000\<rparr>))
              = [Call_esl_msaweight_PB]"
    using relative_weights_override [of demo_bld "demo_msa\<lparr>msa_nseq := 1000\<rparr>" demo_ext]
    by (simp add: demo_bld_def)
  have three: "replicate (nat 3) (1::real) = [1, 1, 1]"
    by (simp add: eval_nat_numeral)
  have none: "msa_wgt (rw_msa (relative_weights demo_ext
                 (demo_bld\<lparr>bld_wgt_strategy := p7_WGT_NONE\<rparr>)
                 (demo_msa\<lparr>msa_wgt := [1 / 2, 1 / 4, 1 / 4]\<rparr>))) = [1, 1, 1]"
    using relative_weights_override [of "demo_bld\<lparr>bld_wgt_strategy := p7_WGT_NONE\<rparr>"
        "demo_msa\<lparr>msa_wgt := [1 / 2, 1 / 4, 1 / 4]\<rparr>" demo_ext] three
    by (simp add: demo_msa_def esl_vec_DSet_all)
  have given: "rw_msa (relative_weights demo_ext (demo_bld\<lparr>bld_wgt_strategy := p7_WGT_GIVEN\<rparr>)
                 (demo_msa\<lparr>msa_wgt := [1 / 2, 1 / 4, 1 / 4]\<rparr>))
               = demo_msa\<lparr>msa_wgt := [1 / 2, 1 / 4, 1 / 4]\<rparr>"
    using relative_weights_override [of "demo_bld\<lparr>bld_wgt_strategy := p7_WGT_GIVEN\<rparr>"
        "demo_msa\<lparr>msa_wgt := [1 / 2, 1 / 4, 1 / 4]\<rparr>" demo_ext]
    by simp
  from pb none given show ?thesis by simp
qed

text \<open>
  C3 as it is written fails where \<open>pbswitch\<close> is \<open>-1\<close>: three sequences are at least \<open>-1\<close>
  sequences, the strategy is GSC, and the algorithm that runs is GSC, not the
  position-based one.
\<close>

theorem relative_weights_override_counterexample:
  "bld_pbswitch (demo_bld\<lparr>bld_pbswitch := - 1\<rparr>) \<le> msa_nseq demo_msa
   \<and> bld_wgt_strategy (demo_bld\<lparr>bld_pbswitch := - 1\<rparr>) = p7_WGT_GSC
   \<and> rw_calls (relative_weights demo_ext (demo_bld\<lparr>bld_pbswitch := - 1\<rparr>) demo_msa)
       = [Call_esl_msaweight_GSC]
   \<and> rw_calls (relative_weights demo_ext (demo_bld\<lparr>bld_pbswitch := - 1\<rparr>) demo_msa)
       \<noteq> [Call_esl_msaweight_PB]"
  by (simp add: relative_weights_def rw_calls_def demo_bld_def demo_msa_def demo_ext_def)

text \<open>
  C10. With \<open>pbswitch = -1\<close> there is no override: whatever the number of sequences,
  \<open>relative_weights\<close> calls the algorithm of the configured strategy (position-based, GSC
  or BLOSUM with the configured identity threshold) and passes on its status and its
  alignment.
\<close>

theorem relative_weights_pbswitch_off:
  assumes "bld_pbswitch bld = - 1"
  shows "(bld_wgt_strategy bld = p7_WGT_PB
          \<longrightarrow> rw_calls (relative_weights x bld msa) = [Call_esl_msaweight_PB]
              \<and> rw_status (relative_weights x bld msa) = fst (esl_msaweight_PB x msa)
              \<and> rw_msa (relative_weights x bld msa) = snd (esl_msaweight_PB x msa))
       \<and> (bld_wgt_strategy bld = p7_WGT_GSC
          \<longrightarrow> rw_calls (relative_weights x bld msa) = [Call_esl_msaweight_GSC]
              \<and> rw_status (relative_weights x bld msa) = fst (esl_msaweight_GSC x msa)
              \<and> rw_msa (relative_weights x bld msa) = snd (esl_msaweight_GSC x msa))
       \<and> (bld_wgt_strategy bld = p7_WGT_BLOSUM
          \<longrightarrow> rw_calls (relative_weights x bld msa) = [Call_esl_msaweight_BLOSUM (bld_wid bld)]
              \<and> rw_status (relative_weights x bld msa)
                  = fst (esl_msaweight_BLOSUM x msa (bld_wid bld))
              \<and> rw_msa (relative_weights x bld msa)
                  = snd (esl_msaweight_BLOSUM x msa (bld_wid bld)))"
  using assms by (simp add: relative_weights_def rw_calls_def rw_status_def rw_msa_def)

text \<open>At 50000 sequences, under the position-based strategy, GSC and BLOSUM.\<close>

theorem relative_weights_pbswitch_off_witness:
  "bld_pbswitch (demo_bld\<lparr>bld_pbswitch := - 1\<rparr>) = - 1
   \<and> rw_calls (relative_weights demo_ext
        (demo_bld\<lparr>bld_pbswitch := - 1, bld_wgt_strategy := p7_WGT_PB\<rparr>)
        (demo_msa\<lparr>msa_nseq := 50000\<rparr>)) = [Call_esl_msaweight_PB]
   \<and> rw_calls (relative_weights demo_ext (demo_bld\<lparr>bld_pbswitch := - 1\<rparr>)
        (demo_msa\<lparr>msa_nseq := 50000\<rparr>)) = [Call_esl_msaweight_GSC]
   \<and> rw_calls (relative_weights demo_ext
        (demo_bld\<lparr>bld_pbswitch := - 1, bld_wgt_strategy := p7_WGT_BLOSUM\<rparr>)
        (demo_msa\<lparr>msa_nseq := 50000\<rparr>)) = [Call_esl_msaweight_BLOSUM (62 / 100)]"
  using relative_weights_pbswitch_off [of "demo_bld\<lparr>bld_pbswitch := - 1\<rparr>" demo_ext
      "demo_msa\<lparr>msa_nseq := 50000\<rparr>"]
    relative_weights_pbswitch_off [of
      "demo_bld\<lparr>bld_pbswitch := - 1, bld_wgt_strategy := p7_WGT_PB\<rparr>" demo_ext
      "demo_msa\<lparr>msa_nseq := 50000\<rparr>"]
    relative_weights_pbswitch_off [of
      "demo_bld\<lparr>bld_pbswitch := - 1, bld_wgt_strategy := p7_WGT_BLOSUM\<rparr>" demo_ext
      "demo_msa\<lparr>msa_nseq := 50000\<rparr>"]
  by (simp add: demo_bld_def)

section \<open>Properties of the effective sequence number stage\<close>

lemma effn_rescale_ok:
  "effn_rescale x bld h c0 = (status, bld', hmm', cs) \<Longrightarrow>
     status = eslOK \<and> bld' = bld
     \<and> hmm' = p7_hmm_Scale x h (ddiv (Fin (hmm_eff_nseq h)) (Fin (real_of_int (hmm_nseq h))))
     \<and> cs = c0 @ [Call_p7_hmm_Scale (ddiv (Fin (hmm_eff_nseq h)) (Fin (real_of_int (hmm_nseq h))))]"
  by (auto simp: effn_rescale_def effn_ratio_def)

text \<open>
  C4. Whenever \<open>effective_seqnumber\<close> succeeds, whatever the strategy, there is an
  effective count \<open>e\<close> such that the model it returns is the one that came in, with
  \<^verbatim>\<open>eff_nseq\<close> set to \<open>e\<close>, given to \<^verbatim>\<open>p7_hmm_Scale\<close> with the ratio of \<open>e\<close> to the model's
  nominal count \<^verbatim>\<open>hmm->nseq\<close>; that call is the last one made. Under \<open>none\<close>, \<open>e\<close> is the
  alignment's sequence count, and under \<open>set\<close> it is \<open>eset\<close>; both strategies always
  succeed. Under \<open>none\<close>, for a model built from the alignment (its nominal count is
  the alignment's count, which is not zero), the ratio is exactly 1.
\<close>

theorem effective_seqnumber_scales:
  "(effective_seqnumber x bld msa hmm bg = (eslOK, bld', hmm', cs)
    \<longrightarrow> (\<exists>e. hmm' = p7_hmm_Scale x (hmm\<lparr>hmm_eff_nseq := e\<rparr>)
                      (ddiv (Fin e) (Fin (real_of_int (hmm_nseq hmm))))
             \<and> cs \<noteq> []
             \<and> last cs = Call_p7_hmm_Scale (ddiv (Fin e) (Fin (real_of_int (hmm_nseq hmm))))
             \<and> (bld_effn_strategy bld = p7_EFFN_NONE \<longrightarrow> e = real_of_int (msa_nseq msa))
             \<and> (bld_effn_strategy bld = p7_EFFN_SET \<longrightarrow> e = bld_eset bld)))
   \<and> (bld_effn_strategy bld = p7_EFFN_NONE \<or> bld_effn_strategy bld = p7_EFFN_SET
    \<longrightarrow> fst (effective_seqnumber x bld msa hmm bg) = eslOK)
   \<and> (bld_effn_strategy bld = p7_EFFN_NONE \<and> hmm_nseq hmm = msa_nseq msa \<and> msa_nseq msa \<noteq> 0
    \<longrightarrow> effective_seqnumber x bld msa hmm bg
          = (eslOK, bld, p7_hmm_Scale x (hmm\<lparr>hmm_eff_nseq := real_of_int (msa_nseq msa)\<rparr>) (Fin 1),
             [Call_p7_hmm_Scale (Fin 1)]))"
proof (intro conjI impI)
  assume ok: "effective_seqnumber x bld msa hmm bg = (eslOK, bld', hmm', cs)"
  show "\<exists>e. hmm' = p7_hmm_Scale x (hmm\<lparr>hmm_eff_nseq := e\<rparr>)
                      (ddiv (Fin e) (Fin (real_of_int (hmm_nseq hmm))))
             \<and> cs \<noteq> []
             \<and> last cs = Call_p7_hmm_Scale (ddiv (Fin e) (Fin (real_of_int (hmm_nseq hmm))))
             \<and> (bld_effn_strategy bld = p7_EFFN_NONE \<longrightarrow> e = real_of_int (msa_nseq msa))
             \<and> (bld_effn_strategy bld = p7_EFFN_SET \<longrightarrow> e = bld_eset bld)"
  proof -
    have "\<exists>e c0. effn_rescale x bld (hmm\<lparr>hmm_eff_nseq := e\<rparr>) c0 = (eslOK, bld', hmm', cs)
            \<and> (bld_effn_strategy bld = p7_EFFN_NONE \<longrightarrow> e = real_of_int (msa_nseq msa))
            \<and> (bld_effn_strategy bld = p7_EFFN_SET \<longrightarrow> e = bld_eset bld)"
    proof (cases "bld_effn_strategy bld")
      case p7_EFFN_NONE
      with ok show ?thesis by (simp add: effective_seqnumber_def) blast
    next
      case p7_EFFN_SET
      with ok show ?thesis by (simp add: effective_seqnumber_def) blast
    next
      case p7_EFFN_CLUST
      obtain st n where sl: "esl_msacluster_SingleLinkage x msa (bld_eid bld) = (st, n)"
        by (cases "esl_msacluster_SingleLinkage x msa (bld_eid bld)")
      from ok p7_EFFN_CLUST sl show ?thesis
        by (simp add: effective_seqnumber_def split: if_splits) blast
    next
      case p7_EFFN_ENTROPY
      define et where "et = (if bld_re_target bld < 0 then default_target_relent x bld (hmm_M hmm)
                             else Fin (bld_re_target bld))"
      obtain st e where ew: "p7_EntropyWeight x hmm bg (bld_prior bld) et = (st, e)"
        by (cases "p7_EntropyWeight x hmm bg (bld_prior bld) et")
      from ok p7_EFFN_ENTROPY ew show ?thesis
        by (simp add: effective_seqnumber_def Let_def et_def [symmetric] split: if_splits) blast
    qed
    then obtain e c0 where
      r: "effn_rescale x bld (hmm\<lparr>hmm_eff_nseq := e\<rparr>) c0 = (eslOK, bld', hmm', cs)"
      and n: "bld_effn_strategy bld = p7_EFFN_NONE \<longrightarrow> e = real_of_int (msa_nseq msa)"
      and s: "bld_effn_strategy bld = p7_EFFN_SET \<longrightarrow> e = bld_eset bld"
      by blast
    from effn_rescale_ok [OF r] n s show ?thesis
      by (intro exI [of _ e]) simp
  qed
next
  assume "bld_effn_strategy bld = p7_EFFN_NONE \<or> bld_effn_strategy bld = p7_EFFN_SET"
  then show "fst (effective_seqnumber x bld msa hmm bg) = eslOK"
    by (auto simp: effective_seqnumber_def effn_rescale_def)
next
  assume "bld_effn_strategy bld = p7_EFFN_NONE \<and> hmm_nseq hmm = msa_nseq msa \<and> msa_nseq msa \<noteq> 0"
  then show "effective_seqnumber x bld msa hmm bg
          = (eslOK, bld, p7_hmm_Scale x (hmm\<lparr>hmm_eff_nseq := real_of_int (msa_nseq msa)\<rparr>) (Fin 1),
             [Call_p7_hmm_Scale (Fin 1)])"
    by (simp add: effective_seqnumber_def effn_rescale_def effn_ratio_def)
qed



text \<open>
  At the sample model of three sequences: \<open>none\<close> scales by 1, and \<open>set\<close> with
  \<open>eset = 6\<close> succeeds with the effective count 6.
\<close>

theorem effective_seqnumber_scales_witness:
  "effective_seqnumber demo_ext (demo_bld\<lparr>bld_effn_strategy := p7_EFFN_NONE\<rparr>) demo_msa demo_hmm
       demo_bg
     = (eslOK, demo_bld\<lparr>bld_effn_strategy := p7_EFFN_NONE\<rparr>,
        p7_hmm_Scale demo_ext (demo_hmm\<lparr>hmm_eff_nseq := 3\<rparr>) (Fin 1),
        [Call_p7_hmm_Scale (Fin 1)])
   \<and> fst (effective_seqnumber demo_ext (demo_bld\<lparr>bld_effn_strategy := p7_EFFN_SET, bld_eset := 6\<rparr>)
            demo_msa demo_hmm demo_bg) = eslOK
   \<and> (\<exists>e. fst (snd (snd (effective_seqnumber demo_ext
                  (demo_bld\<lparr>bld_effn_strategy := p7_EFFN_SET, bld_eset := 6\<rparr>)
                  demo_msa demo_hmm demo_bg)))
             = p7_hmm_Scale demo_ext (demo_hmm\<lparr>hmm_eff_nseq := e\<rparr>)
                  (ddiv (Fin e) (Fin (real_of_int (hmm_nseq demo_hmm))))
           \<and> e = 6)"
proof -
  let ?bn = "demo_bld\<lparr>bld_effn_strategy := p7_EFFN_NONE\<rparr>"
  let ?bs = "demo_bld\<lparr>bld_effn_strategy := p7_EFFN_SET, bld_eset := 6\<rparr>"
  note noop = effective_seqnumber_scales
    [of demo_ext ?bn demo_msa demo_hmm demo_bg ?bn demo_hmm "[]", THEN conjunct2, THEN conjunct2]
  have none: "effective_seqnumber demo_ext ?bn demo_msa demo_hmm demo_bg
     = (eslOK, ?bn, p7_hmm_Scale demo_ext (demo_hmm\<lparr>hmm_eff_nseq := 3\<rparr>) (Fin 1),
        [Call_p7_hmm_Scale (Fin 1)])"
    using noop by (simp add: demo_msa_def demo_hmm_def)
  obtain b h c where r: "effective_seqnumber demo_ext ?bs demo_msa demo_hmm demo_bg
      = (eslOK, b, h, c)"
    by (simp add: effective_seqnumber_def effn_rescale_def)
  note ok = effective_seqnumber_scales
    [of demo_ext ?bs demo_msa demo_hmm demo_bg b h c, THEN conjunct2, THEN conjunct1]
  note sc = effective_seqnumber_scales
    [of demo_ext ?bs demo_msa demo_hmm demo_bg b h c, THEN conjunct1, rule_format, OF r]
  have st: "fst (effective_seqnumber demo_ext ?bs demo_msa demo_hmm demo_bg) = eslOK"
    using ok by simp
  from sc obtain e where
    "h = p7_hmm_Scale demo_ext (demo_hmm\<lparr>hmm_eff_nseq := e\<rparr>)
           (ddiv (Fin e) (Fin (real_of_int (hmm_nseq demo_hmm))))"
    and "bld_effn_strategy ?bs = p7_EFFN_SET \<longrightarrow> e = bld_eset ?bs"
    by blast
  then have "h = p7_hmm_Scale demo_ext (demo_hmm\<lparr>hmm_eff_nseq := e\<rparr>)
           (ddiv (Fin e) (Fin (real_of_int (hmm_nseq demo_hmm)))) \<and> e = 6"
    by simp
  then have "\<exists>e. fst (snd (snd (effective_seqnumber demo_ext ?bs demo_msa demo_hmm demo_bg)))
             = p7_hmm_Scale demo_ext (demo_hmm\<lparr>hmm_eff_nseq := e\<rparr>)
                  (ddiv (Fin e) (Fin (real_of_int (hmm_nseq demo_hmm))))
           \<and> e = 6"
    unfolding r by (intro exI [of _ e]) simp
  with none st show ?thesis by blast
qed

section \<open>Properties of the default entropy target\<close>

lemma wrap32_id: "- 2147483648 \<le> i \<Longrightarrow> i < 2147483648 \<Longrightarrow> wrap32 i = i"
  by (simp add: wrap32_def)

lemma tri_bound:
  fixes M :: int
  assumes "1 \<le> M" "M \<le> 46340"
  shows "1 \<le> M * (M + 1)" "M * (M + 1) \<le> 2147441940"
proof -
  from assms have "M * (M + 1) \<le> 46340 * 46341"
    by (intro mult_mono) simp_all
  then show "M * (M + 1) \<le> 2147441940" by simp
  from assms have "1 * 1 \<le> M * (M + 1)"
    by (intro mult_mono) simp_all
  then show "1 \<le> M * (M + 1)" by simp
qed

lemma tri_half:
  fixes M :: int
  assumes "1 \<le> M"
  shows "real_of_int (cdiv (M * (M + 1)) 2) = real_of_int (M * (M + 1)) / 2"
    and "0 < real_of_int (M * (M + 1)) / 2"
proof -
  from assms have pos: "0 < M * (M + 1)" by simp
  then have c: "cdiv (M * (M + 1)) 2 = M * (M + 1) div 2"
    by (simp add: cdiv_def)
  have "even (M * (M + 1))" by simp
  then have "real_of_int (M * (M + 1) div 2) = real_of_int (M * (M + 1)) / real_of_int 2"
    by (rule real_of_int_div)
  with c show "real_of_int (cdiv (M * (M + 1)) 2) = real_of_int (M * (M + 1)) / 2" by simp
  from pos have "(0::real) < real_of_int (M * (M + 1))"
    by (simp only: of_int_0_less_iff)
  then show "0 < real_of_int (M * (M + 1)) / 2"
    by (simp del: of_int_mult of_int_add)
qed

lemma default_target_relent_value:
  assumes "1 \<le> M" "M \<le> 46340"
  shows "default_target_relent x bld M
       = Fin (max (relent_formula (bld_eX bld) M) (etarget_floor x (abc_type (bld_abc bld))))"
proof -
  from assms have w1: "wrap32 (M + 1) = M + 1" by (intro wrap32_id) simp_all
  from tri_bound [OF assms] have w2: "wrap32 (M * (M + 1)) = M * (M + 1)"
    by (intro wrap32_id) simp_all
  from assms have w3: "wrap32 (2 * M) = 2 * M" by (intro wrap32_id) simp_all
  from assms have w4: "wrap32 (2 * M + 4) = 2 * M + 4" by (intro wrap32_id) simp_all
  from assms have nz: "real_of_int (2 * M + 4) \<noteq> 0" by simp
  have l2: "ln (2::real) \<noteq> 0" "0 < ln (2::real)" by simp_all
  note h = tri_half [OF assms(1)]
  show ?thesis
    using nz l2 h(2)
    by (simp add: default_target_relent_def Let_def w1 w2 w3 w4 h(1) relent_formula_def
          log_def max_def del: of_int_mult of_int_add)
qed


lemma ln3_ge_1: "1 \<le> ln (3::real)"
  using exp_le by (simp add: ln_ge_iff)

lemma relent_formula_alt:
  assumes "1 \<le> M"
  shows "relent_formula eX M
       = 3 * (eX + (ln (real_of_int M) + ln (real_of_int M + 1) - ln 2) / ln 2)
           / (real_of_int M + 2)"
proof -
  from assms have m: "0 < real_of_int M" "0 < real_of_int M + 1" by simp_all
  have a: "ln (real_of_int (M * (M + 1)) / 2)
      = ln (real_of_int M) + ln (real_of_int M + 1) - ln 2"
    using m by (simp add: ln_div ln_mult)
  have b: "6 * y / real_of_int (2 * M + 4) = 3 * y / (real_of_int M + 2)" for y :: real
  proof -
    from m have "real_of_int M + 2 \<noteq> 0" "2 * real_of_int M + 4 \<noteq> 0" by simp_all
    then show ?thesis by (simp add: field_simps)
  qed
  show ?thesis
    unfolding relent_formula_def log_def a by (rule b)
qed

lemma relent_step:
  assumes eX: "3 * log 2 3 \<le> eX" and M: "1 \<le> M"
  shows "relent_formula eX (M + 1) \<le> relent_formula eX M"
proof -
  define m where "m = real_of_int M"
  from M have m1: "1 \<le> m" by (simp add: m_def)
  have l2: "0 < ln (2::real)" by simp
  define A where "A = eX + (ln m + ln (m + 1) - ln 2) / ln 2"
  define D where "D = (ln (m + 2) - ln m) / ln 2"
  have fM: "relent_formula eX M = 3 * A / (m + 2)"
    using relent_formula_alt [OF M, of eX] by (simp add: A_def m_def)
  have fM1: "relent_formula eX (M + 1) = 3 * (A + D) / (m + 3)"
  proof -
    from M have "1 \<le> M + 1" by simp
    from relent_formula_alt [OF this, of eX]
    have "relent_formula eX (M + 1)
        = 3 * (eX + (ln (m + 1) + ln (m + 2) - ln 2) / ln 2) / (m + 3)"
      by (simp add: m_def add.commute add.left_commute)
    moreover have "eX + (ln (m + 1) + ln (m + 2) - ln 2) / ln 2 = A + D"
      by (simp add: A_def D_def field_simps)
    ultimately show ?thesis by simp
  qed
  have key: "D * (m + 2) \<le> A"
  proof (cases "M = 1")
    case True
    then have "m = 1" by (simp add: m_def)
    then have "A = eX" "D * (m + 2) = 3 * log 2 3"
      by (simp_all add: A_def D_def log_def)
    with eX show ?thesis by simp
  next
    case False
    with M have "2 \<le> M" by simp
    then have m2: "2 \<le> m" by (simp add: m_def)
    have "1 + 2 / m = (m + 2) / m"
      using m2 by (simp add: field_simps)
    then have "ln (1 + 2 / m) = ln (m + 2) - ln m"
      using m2 by (simp add: ln_div)
    then have "ln (m + 2) - ln m = ln (1 + 2 / m)" by simp
    also have "\<dots> \<le> 2 / m"
      using m2 by (intro ln_add_one_self_le_self) simp
    finally have d: "ln (m + 2) - ln m \<le> 2 / m" .
    have "D * (m + 2) = (ln (m + 2) - ln m) * (m + 2) / ln 2"
      by (simp add: D_def)
    also have "\<dots> \<le> (2 / m) * (m + 2) / ln 2"
      using d m2 l2 by (intro divide_right_mono mult_right_mono) simp_all
    also have "(2 / m) * (m + 2) = 2 + 4 / m"
      using m2 by (simp add: field_simps)
    also have "(2 + 4 / m) / ln 2 \<le> 4 / ln 2"
    proof -
      from m2 have "4 / m \<le> 2" by (simp add: field_simps)
      then have "2 + 4 / m \<le> 4" by simp
      with l2 show ?thesis by (intro divide_right_mono) simp_all
    qed
    finally have up: "D * (m + 2) \<le> 4 / ln 2" .
    have "ln 3 \<le> ln m + ln (m + 1) - ln 2"
    proof -
      from m2 have "2 * 3 \<le> m * (m + 1)"
        by (intro mult_mono) simp_all
      then have "3 \<le> m * (m + 1) / 2" by simp
      then have "ln 3 \<le> ln (m * (m + 1) / 2)"
        by (subst ln_le_cancel_iff) simp_all
      also have "\<dots> = ln m + ln (m + 1) - ln 2"
        using m2 by (simp add: ln_div ln_mult)
      finally show ?thesis .
    qed
    then have "ln 3 / ln 2 \<le> (ln m + ln (m + 1) - ln 2) / ln 2"
      using l2 by (intro divide_right_mono) simp_all
    with eX have "3 * (ln 3 / ln 2) + ln 3 / ln 2 \<le> A"
      by (simp add: A_def log_def)
    then have "4 * ln 3 / ln 2 \<le> A" by simp
    moreover have "4 / ln 2 \<le> 4 * ln 3 / ln (2::real)"
      using ln3_ge_1 l2 by (intro divide_right_mono) simp_all
    ultimately show ?thesis using up by linarith
  qed
  have "(A + D) * (m + 2) \<le> A * (m + 3)"
    using key by (simp add: algebra_simps)
  then have "(A + D) / (m + 3) \<le> A / (m + 2)"
    using m1 by (simp add: field_simps)
  then have "3 * ((A + D) / (m + 3)) \<le> 3 * (A / (m + 2))"
    by (rule mult_left_mono) simp
  then show ?thesis
    unfolding fM fM1 by (simp only: times_divide_eq_right)
qed

lemma relent_mono:
  assumes eX: "3 * log 2 3 \<le> eX" and M: "1 \<le> M" and le: "M \<le> M'"
  shows "relent_formula eX M' \<le> relent_formula eX M"
  using le
proof (induction M' rule: int_ge_induct)
  case base
  show ?case by simp
next
  case (step i)
  from step.hyps M have "1 \<le> i" by simp
  from relent_step [OF eX this] step.IH show ?case by simp
qed


text \<open>
  C5, as amended. For a model length \<open>M\<close> from 1 to 46340 (the lengths for which
  \<^verbatim>\<open>M * (M+1)\<close> is an \<^verbatim>\<open>int\<close>), \<open>default_target_relent\<close> returns the larger of
  \<open>6 (eX + log2 (M (M + 1) / 2)) / (2 M + 4)\<close> and the floor of the alphabet, so never
  less than that floor; and for a fixed offset \<open>eX\<close> of at least \<open>3 log2 3\<close> (about 4.755;
  the default is 6) it does not increase with \<open>M\<close>: a length \<open>M'\<close> between \<open>M\<close> and 46340
  gets a target that is at most the target of \<open>M\<close>.
\<close>

theorem default_target_relent_floor_mono:
  assumes "1 \<le> M" and "M \<le> 46340"
  shows "default_target_relent x bld M
           = Fin (max (relent_formula (bld_eX bld) M) (etarget_floor x (abc_type (bld_abc bld))))
       \<and> (\<exists>v. default_target_relent x bld M = Fin v
               \<and> etarget_floor x (abc_type (bld_abc bld)) \<le> v)
       \<and> (3 * log 2 3 \<le> bld_eX bld \<and> M \<le> M' \<and> M' \<le> 46340
          \<longrightarrow> (\<exists>v v'. default_target_relent x bld M = Fin v
                      \<and> default_target_relent x bld M' = Fin v' \<and> v' \<le> v))"
proof (intro conjI impI)
  show v: "default_target_relent x bld M
           = Fin (max (relent_formula (bld_eX bld) M) (etarget_floor x (abc_type (bld_abc bld))))"
    by (rule default_target_relent_value [OF assms])
  then show "\<exists>v. default_target_relent x bld M = Fin v
               \<and> etarget_floor x (abc_type (bld_abc bld)) \<le> v"
    by simp
  assume a: "3 * log 2 3 \<le> bld_eX bld \<and> M \<le> M' \<and> M' \<le> 46340"
  with assms have "1 \<le> M'" by simp
  from default_target_relent_value [OF this, of x bld] a
  have v': "default_target_relent x bld M'
           = Fin (max (relent_formula (bld_eX bld) M') (etarget_floor x (abc_type (bld_abc bld))))"
    by simp
  from a assms relent_mono [of "bld_eX bld" M M']
  have "relent_formula (bld_eX bld) M' \<le> relent_formula (bld_eX bld) M" by simp
  then have "max (relent_formula (bld_eX bld) M') (etarget_floor x (abc_type (bld_abc bld)))
           \<le> max (relent_formula (bld_eX bld) M) (etarget_floor x (abc_type (bld_abc bld)))"
    by (simp add: max_def)
  with v v' show "\<exists>v v'. default_target_relent x bld M = Fin v
                      \<and> default_target_relent x bld M' = Fin v' \<and> v' \<le> v"
    by blast
qed

lemma log2_3_bounds: "1 \<le> log 2 (3::real)" "log 2 (3::real) \<le> 2"
proof -
  have "log 2 2 \<le> log 2 (3::real)" by (subst log_le_cancel_iff) simp_all
  then show "1 \<le> log 2 (3::real)" by simp
  have "log 2 3 \<le> log 2 (4::real)" by (subst log_le_cancel_iff) simp_all
  also have "log 2 (4::real) = log 2 (2 ^ 2)" by simp
  also have "\<dots> = 2" by (simp only: log_pow_cancel)
  finally show "log 2 (3::real) \<le> 2" .
qed

lemma relent_formula_1: "relent_formula eX 1 = eX"
  by (simp add: relent_formula_def)

lemma relent_formula_2: "relent_formula eX 2 = 6 * (eX + log 2 3) / 8"
  by (simp add: relent_formula_def)

text \<open>The default offset 6 and the amino floor 0.59, at the lengths 1 and 2.\<close>

theorem default_target_relent_floor_mono_witness:
  "default_target_relent demo_ext demo_bld 1 = Fin 6
   \<and> (\<exists>v. default_target_relent demo_ext demo_bld 1 = Fin v \<and> 59 / 100 \<le> v)
   \<and> (\<exists>v v'. default_target_relent demo_ext demo_bld 1 = Fin v
          \<and> default_target_relent demo_ext demo_bld 2 = Fin v' \<and> v' \<le> v)"
proof -
  have fl: "etarget_floor demo_ext (abc_type (bld_abc demo_bld)) = 59 / 100"
    by (simp add: etarget_floor_def demo_ext_def demo_bld_def demo_abc_def)
  have eX: "bld_eX demo_bld = 6" by (simp add: demo_bld_def)
  note t = default_target_relent_floor_mono [of 1 demo_ext demo_bld 2]
  from t have a: "default_target_relent demo_ext demo_bld 1 = Fin 6"
    by (simp add: fl eX relent_formula_1)
  from t have b: "\<exists>v. default_target_relent demo_ext demo_bld 1 = Fin v \<and> 59 / 100 \<le> v"
    by (simp add: fl)
  have h: "3 * log 2 3 \<le> bld_eX demo_bld \<and> (1::int) \<le> 2 \<and> (2::int) \<le> 46340"
    using log2_3_bounds(2) by (simp add: eX)
  have one: "(1::int) \<le> 1" "(1::int) \<le> 46340" by simp_all
  note c = default_target_relent_floor_mono [OF one, of demo_ext demo_bld 2,
      THEN conjunct2, THEN conjunct2, rule_format, OF h]
  from a b c show ?thesis by blast
qed

text \<open>
  C5 as it is written fails for a small offset: with \<open>eX = 1\<close> and the amino floor 0.59,
  the target of length 1 is 1 and the target of length 2 is \<open>6 (1 + log2 3) / 8\<close>, which
  is more.
\<close>

theorem default_target_relent_mono_counterexample:
  "dless (default_target_relent demo_ext (demo_bld\<lparr>bld_eX := 1\<rparr>) 1)
         (default_target_relent demo_ext (demo_bld\<lparr>bld_eX := 1\<rparr>) 2)"
proof -
  let ?b = "demo_bld\<lparr>bld_eX := 1\<rparr>"
  have fl: "etarget_floor demo_ext (abc_type (bld_abc demo_bld)) = 59 / 100"
    by (simp add: etarget_floor_def demo_ext_def demo_bld_def demo_abc_def)
  have v1: "default_target_relent demo_ext ?b 1 = Fin 1"
    using default_target_relent_value [of 1 demo_ext ?b]
    by (simp add: fl relent_formula_1)
  have v2: "default_target_relent demo_ext ?b 2
              = Fin (max (6 * (1 + log 2 3) / 8) (59 / 100))"
    using default_target_relent_value [of 2 demo_ext ?b]
    by (simp add: fl relent_formula_2)
  have "6 * (1 + log 2 3) / 8 = 3 / 4 + 3 / 4 * log 2 (3::real)"
    by (simp add: field_simps)
  with log2_3_bounds(1) have "(1::real) < 6 * (1 + log 2 3) / 8"
    by linarith
  then have "(1::real) < max (6 * (1 + log 2 3) / 8) (59 / 100)"
    by simp
  with v1 v2 show ?thesis by simp
qed

section \<open>Properties of the score system\<close>

text \<open>
  C6. When the block that gets the matrix has succeeded and the matrix it left in the
  configuration is not symmetric, \<open>p7_builder_SetScoreSystem\<close> returns \<open>eslEINVAL\<close> with
  the message \<open>Matrix isn't symmetric\<close> in the buffer, and its calls end with the symmetry
  test: \<^verbatim>\<open>esl_sco_Probify\<close> is not among them. And in every run where \<^verbatim>\<open>esl_sco_Probify\<close>
  is called, the matrix is symmetric and the symmetry test is the call right before,
  the one call of \<^verbatim>\<open>esl_sco_Probify\<close> being the last.
\<close>

theorem SetScoreSystem_symmetry_first:
  "(get_score_matrix x bld mxfile env = Some (Inr (b2, c2))
      \<and> \<not> esl_scorematrix_IsSymmetric x (bld_S b2)
    \<longrightarrow> p7_builder_SetScoreSystem x bld mxfile env popen pextend
          = Some (eslEINVAL, b2\<lparr>bld_errbuf := (''Matrix isn't symmetric'', [])\<rparr>,
                  c2 @ [Call_esl_scorematrix_IsSymmetric])
        \<and> Call_esl_sco_Probify \<notin> set c2)
   \<and> (p7_builder_SetScoreSystem x bld mxfile env popen pextend = Some (status, bld', cs)
      \<and> Call_esl_sco_Probify \<in> set cs
    \<longrightarrow> esl_scorematrix_IsSymmetric x (bld_S bld')
        \<and> (\<exists>pre. cs = pre @ [Call_esl_scorematrix_IsSymmetric, Call_esl_sco_Probify]
                  \<and> Call_esl_sco_Probify \<notin> set pre))"
proof -
  have nop: "Call_esl_sco_Probify \<notin> set c"
    if "get_score_matrix x bld mxfile env = Some (Inr (b, c))" for b c
    using that
    by (auto simp: get_score_matrix_def Let_def
          split: option.splits prod.splits if_splits)
  have nopl: "Call_esl_sco_Probify \<notin> set c"
    if "get_score_matrix x bld mxfile env = Some (Inl (st, b, c))" for st b c
    using that
    by (auto simp: get_score_matrix_def Let_def
          split: option.splits prod.splits if_splits)
  have rejected: "p7_builder_SetScoreSystem x bld mxfile env popen pextend
          = Some (eslEINVAL, b2\<lparr>bld_errbuf := (''Matrix isn't symmetric'', [])\<rparr>,
                  c2 @ [Call_esl_scorematrix_IsSymmetric])
        \<and> Call_esl_sco_Probify \<notin> set c2"
    if a: "get_score_matrix x bld mxfile env = Some (Inr (b2, c2))
      \<and> \<not> esl_scorematrix_IsSymmetric x (bld_S b2)"
    using a nop [of b2 c2] by (simp add: p7_builder_SetScoreSystem_def)
  have checked: "esl_scorematrix_IsSymmetric x (bld_S bld')
        \<and> (\<exists>pre. cs = pre @ [Call_esl_scorematrix_IsSymmetric, Call_esl_sco_Probify]
                  \<and> Call_esl_sco_Probify \<notin> set pre)"
    if a: "p7_builder_SetScoreSystem x bld mxfile env popen pextend = Some (status, bld', cs)
      \<and> Call_esl_sco_Probify \<in> set cs"
  proof -
    from a obtain g where g: "get_score_matrix x bld mxfile env = Some g"
      by (auto simp: p7_builder_SetScoreSystem_def split: option.splits)
    show ?thesis
    proof (cases g)
      case (Inl f)
      obtain st b c where f: "f = (st, b, c)" by (cases f)
      from a g Inl f nopl [of st b c] show ?thesis
        by (auto simp: p7_builder_SetScoreSystem_def)
    next
      case (Inr p)
      obtain b2 c2 where p: "p = (b2, c2)" by (cases p)
      obtain st Q fa fb sl where pr: "esl_sco_Probify x (bld_S b2) = (st, Q, fa, fb, sl)"
        by (cases "esl_sco_Probify x (bld_S b2)")
      from a g Inr p pr nop [of b2 c2] show ?thesis
        by (auto simp: p7_builder_SetScoreSystem_def Let_def
              split: if_splits option.splits)
    qed
  qed
  from rejected checked show ?thesis by blast
qed

text \<open>
  A matrix file whose matrix is not symmetric is rejected after the symmetry test; the
  default matrix passes the test and is given to \<^verbatim>\<open>esl_sco_Probify\<close>.
\<close>

theorem SetScoreSystem_symmetry_first_witness:
  "p7_builder_SetScoreSystem demo_ext demo_bld (Some ''skew.mat'') None (1 / 50) (2 / 5)
     = Some (eslEINVAL,
             demo_bld\<lparr>bld_S := Some \<lparr>sm_s = [[4, - 1], [0, 5]]\<rparr>,
                      bld_errbuf := (''Matrix isn't symmetric'', [])\<rparr>,
             [Call_esl_scorematrix_Create, Call_esl_fileparser_Open ''skew.mat'',
              Call_esl_sco_Read, Call_esl_fileparser_Close, Call_esl_scorematrix_IsSymmetric])
   \<and> esl_scorematrix_IsSymmetric demo_ext (Some \<lparr>sm_s = [[4, - 1], [- 1, 5]]\<rparr>)"
proof -
  let ?b2 = "demo_bld\<lparr>bld_S := Some \<lparr>sm_s = [[4, - 1], [0, 5]]\<rparr>\<rparr>"
  let ?c2 = "[Call_esl_scorematrix_Create, Call_esl_fileparser_Open ''skew.mat'',
              Call_esl_sco_Read, Call_esl_fileparser_Close]"
  have g: "get_score_matrix demo_ext demo_bld (Some ''skew.mat'') None = Some (Inr (?b2, ?c2))"
    by (simp add: get_score_matrix_def demo_ext_def demo_bld_def)
  have ns: "\<not> esl_scorematrix_IsSymmetric demo_ext (bld_S ?b2)"
    by (simp add: demo_ext_def)
  note rej = SetScoreSystem_symmetry_first
    [of demo_ext demo_bld "Some ''skew.mat''" None ?b2 ?c2 "1 / 50" "2 / 5" eslOK demo_bld "[]",
     THEN conjunct1, rule_format, OF conjI [OF g ns], THEN conjunct1]
  let ?b3 = "demo_bld\<lparr>bld_S := Some \<lparr>sm_s = [[4, - 1], [- 1, 5]]\<rparr>,
               bld_Q := Some \<lparr>dm_mx = [[Fin (3 / 5), Fin (2 / 5)], [Fin (2 / 5), Fin (3 / 5)]]\<rparr>,
               bld_popen := 1 / 50, bld_pextend := 2 / 5\<rparr>"
  let ?c3 = "[Call_esl_scorematrix_Create, Call_esl_scorematrix_SetBLOSUM62,
              Call_esl_scorematrix_IsSymmetric, Call_esl_sco_Probify]"
  have r: "p7_builder_SetScoreSystem demo_ext demo_bld None None (1 / 50) (2 / 5)
             = Some (eslOK, ?b3, ?c3)"
    by (simp add: p7_builder_SetScoreSystem_def get_score_matrix_def demo_ext_def demo_bld_def
          demo_abc_def rows_fit_def normalize_rows_def upt_rec)
  have m: "Call_esl_sco_Probify \<in> set ?c3" by simp
  note sym = SetScoreSystem_symmetry_first
    [of demo_ext demo_bld None None demo_bld "[]" "1 / 50" "2 / 5" eslOK ?b3 ?c3,
     THEN conjunct2, rule_format, OF conjI [OF r m], THEN conjunct1]
  from rej sym show ?thesis by simp
qed

section \<open>Properties of the configuration\<close>

lemma create_strategies_eset:
  "bld_eset (create_strategies g b)
     = (if \<not> esl_opt_GetBoolean g ''--eent'' \<and> \<not> esl_opt_GetBoolean g ''--eclust''
           \<and> \<not> esl_opt_GetBoolean g ''--enone'' \<and> esl_opt_IsOn g ''--eset''
        then esl_opt_GetReal g ''--eset'' else bld_eset b)"
  by (simp add: create_strategies_def Let_def)

lemma create_strategies_effn:
  "\<not> esl_opt_GetBoolean g ''--eent'' \<Longrightarrow> \<not> esl_opt_GetBoolean g ''--eclust''
     \<Longrightarrow> \<not> esl_opt_GetBoolean g ''--enone'' \<Longrightarrow> esl_opt_IsOn g ''--eset''
     \<Longrightarrow> bld_effn_strategy (create_strategies g b) = p7_EFFN_SET"
  by (simp add: create_strategies_def Let_def)

text \<open>
  C8, as amended. \<open>p7_builder_Create\<close> does not look at the sign of \<open>eset\<close>. Without an
  option set the strategy is entropy-target and \<open>eset\<close> is \<open>-1\<close>. With an option set whose
  chain of flags reaches \<^verbatim>\<open>--eset\<close>, the strategy is set-value and \<open>eset\<close> is the value of
  \<^verbatim>\<open>--eset\<close>, so that \<open>eset\<close> is at least 0 exactly when that value is; with any other
  option set \<open>eset\<close> is \<open>-1\<close>. Under the set-value strategy \<open>effective_seqnumber\<close> assigns
  \<open>eset\<close> to \<^verbatim>\<open>hmm->eff_nseq\<close> as it is and scales by its ratio to \<^verbatim>\<open>hmm->nseq\<close>.
\<close>

theorem p7_builder_Create_eset:
  assumes "p7_builder_Create x go abc raw = Some b"
  shows "(go = None \<longrightarrow> bld_effn_strategy b = p7_EFFN_ENTROPY \<and> bld_eset b = - 1)
       \<and> (\<forall>g. go = Some g \<and> eset_chosen g
              \<longrightarrow> bld_effn_strategy b = p7_EFFN_SET
                  \<and> bld_eset b = esl_opt_GetReal g ''--eset''
                  \<and> (0 \<le> bld_eset b \<longleftrightarrow> 0 \<le> esl_opt_GetReal g ''--eset''))
       \<and> (\<forall>g. go = Some g \<and> \<not> eset_chosen g \<longrightarrow> bld_eset b = - 1)
       \<and> (bld_effn_strategy b = p7_EFFN_SET
          \<longrightarrow> effective_seqnumber x b msa hmm bg
                = (eslOK, b,
                   p7_hmm_Scale x (hmm\<lparr>hmm_eff_nseq := bld_eset b\<rparr>)
                     (ddiv (Fin (bld_eset b)) (Fin (real_of_int (hmm_nseq hmm)))),
                   [Call_p7_hmm_Scale
                      (ddiv (Fin (bld_eset b)) (Fin (real_of_int (hmm_nseq hmm))))]))"
proof -
  from assms obtain b0 where raw: "raw = Some b0"
    by (cases raw) (simp_all add: p7_builder_Create_def)
  have d: "go = None \<longrightarrow> bld_effn_strategy b = p7_EFFN_ENTROPY \<and> bld_eset b = - 1"
    using assms raw by (auto simp: p7_builder_Create_def create_seed_def Let_def split: if_splits)
  have s: "bld_effn_strategy b = p7_EFFN_SET
                  \<and> bld_eset b = esl_opt_GetReal g ''--eset''
                  \<and> (0 \<le> bld_eset b \<longleftrightarrow> 0 \<le> esl_opt_GetReal g ''--eset'')"
    if "go = Some g \<and> eset_chosen g" for g
    using assms raw that
    by (auto simp: p7_builder_Create_def create_seed_def Let_def eset_chosen_def create_strategies_eset
          create_strategies_effn split: if_splits)
  have u: "bld_eset b = - 1" if "go = Some g \<and> \<not> eset_chosen g" for g
    using assms raw that
    by (auto simp: p7_builder_Create_def create_seed_def Let_def eset_chosen_def create_strategies_eset
          split: if_splits)
  have e: "bld_effn_strategy b = p7_EFFN_SET
          \<longrightarrow> effective_seqnumber x b msa hmm bg
                = (eslOK, b,
                   p7_hmm_Scale x (hmm\<lparr>hmm_eff_nseq := bld_eset b\<rparr>)
                     (ddiv (Fin (bld_eset b)) (Fin (real_of_int (hmm_nseq hmm)))),
                   [Call_p7_hmm_Scale
                      (ddiv (Fin (bld_eset b)) (Fin (real_of_int (hmm_nseq hmm))))])"
    by (simp add: effective_seqnumber_def effn_rescale_def effn_ratio_def)
  from d s u e show ?thesis by blast
qed

lemma demo_create_eset:
  "\<exists>b. p7_builder_Create demo_ext (Some demo_go_eset) demo_abc (Some demo_raw) = Some b"
  by (simp add: p7_builder_Create_def create_seed_def Let_def demo_ext_def create_prior_def demo_abc_def)

text \<open>
  C8 as it is written fails for the option set with \<^verbatim>\<open>--eset -3\<close>: the configuration
  that \<open>p7_builder_Create\<close> returns has the set-value strategy and a negative \<open>eset\<close>.
\<close>

theorem p7_builder_Create_eset_counterexample:
  "\<exists>b. p7_builder_Create demo_ext (Some demo_go_eset) demo_abc (Some demo_raw) = Some b
       \<and> bld_effn_strategy b = p7_EFFN_SET \<and> bld_eset b = - 3 \<and> \<not> 0 \<le> bld_eset b"
  by (simp add: p7_builder_Create_def create_seed_def Let_def demo_ext_def create_prior_def demo_abc_def
        create_strategies_def demo_go_eset_def demo_go_def)

text \<open>
  The same option set: the model's effective count becomes \<open>-3\<close>, the scale \<open>-1\<close>. Without
  an option set, and with an option set that asks for the entropy target, \<open>eset\<close> is \<open>-1\<close>.
\<close>

theorem p7_builder_Create_eset_witness:
  "(\<exists>b. p7_builder_Create demo_ext (Some demo_go_eset) demo_abc (Some demo_raw) = Some b
       \<and> eset_chosen demo_go_eset
       \<and> bld_effn_strategy b = p7_EFFN_SET
       \<and> bld_eset b = - 3
       \<and> fst (snd (snd (effective_seqnumber demo_ext b demo_msa demo_hmm demo_bg)))
           = p7_hmm_Scale demo_ext (demo_hmm\<lparr>hmm_eff_nseq := - 3\<rparr>) (Fin (- 1)))
   \<and> (p7_builder_Create demo_ext None demo_abc (Some demo_raw) = Some demo_bld
       \<and> bld_effn_strategy demo_bld = p7_EFFN_ENTROPY \<and> bld_eset demo_bld = - 1)
   \<and> (\<exists>b. p7_builder_Create demo_ext (Some (demo_go [''--fast'', ''--wgsc'', ''--eent''] [] []))
              demo_abc (Some demo_raw) = Some b
       \<and> \<not> eset_chosen (demo_go [''--fast'', ''--wgsc'', ''--eent''] [] [])
       \<and> bld_eset b = - 1)"
proof -
  from demo_create_eset obtain b where
    c: "p7_builder_Create demo_ext (Some demo_go_eset) demo_abc (Some demo_raw) = Some b" ..
  have ch: "eset_chosen demo_go_eset"
    by (simp add: eset_chosen_def demo_go_eset_def demo_go_def)
  note t = p7_builder_Create_eset [OF c, of demo_msa demo_hmm demo_bg]
  from t ch have s: "bld_effn_strategy b = p7_EFFN_SET"
    and v: "bld_eset b = esl_opt_GetReal demo_go_eset ''--eset''"
    by blast+
  from v have v3: "bld_eset b = - 3"
    by (simp add: demo_go_eset_def demo_go_def)
  from t s have "effective_seqnumber demo_ext b demo_msa demo_hmm demo_bg
                = (eslOK, b,
                   p7_hmm_Scale demo_ext (demo_hmm\<lparr>hmm_eff_nseq := bld_eset b\<rparr>)
                     (ddiv (Fin (bld_eset b)) (Fin (real_of_int (hmm_nseq demo_hmm)))),
                   [Call_p7_hmm_Scale
                      (ddiv (Fin (bld_eset b)) (Fin (real_of_int (hmm_nseq demo_hmm))))])"
    by blast
  then have "fst (snd (snd (effective_seqnumber demo_ext b demo_msa demo_hmm demo_bg)))
           = p7_hmm_Scale demo_ext (demo_hmm\<lparr>hmm_eff_nseq := - 3\<rparr>) (Fin (- 1))"
    by (simp add: v3 demo_hmm_def)
  with c ch s v3 have first:
    "\<exists>b. p7_builder_Create demo_ext (Some demo_go_eset) demo_abc (Some demo_raw) = Some b
       \<and> eset_chosen demo_go_eset
       \<and> bld_effn_strategy b = p7_EFFN_SET
       \<and> bld_eset b = - 3
       \<and> fst (snd (snd (effective_seqnumber demo_ext b demo_msa demo_hmm demo_bg)))
           = p7_hmm_Scale demo_ext (demo_hmm\<lparr>hmm_eff_nseq := - 3\<rparr>) (Fin (- 1))"
    by blast
  have d: "p7_builder_Create demo_ext None demo_abc (Some demo_raw) = Some demo_bld"
    by (simp add: p7_builder_Create_def create_seed_def Let_def demo_ext_def demo_raw_def
          demo_bld_def create_prior_def demo_abc_def esl_randomness_Create_spec_def)
  from p7_builder_Create_eset [OF d, of demo_msa demo_hmm demo_bg]
  have second: "bld_effn_strategy demo_bld = p7_EFFN_ENTROPY \<and> bld_eset demo_bld = - 1"
    by blast
  let ?g = "demo_go [''--fast'', ''--wgsc'', ''--eent''] [] []"
  have "\<exists>b. p7_builder_Create demo_ext (Some ?g) demo_abc (Some demo_raw) = Some b"
    by (simp add: p7_builder_Create_def Let_def demo_ext_def create_prior_def demo_abc_def)
  then obtain b' where
    c': "p7_builder_Create demo_ext (Some ?g) demo_abc (Some demo_raw) = Some b'" ..
  have nch: "\<not> eset_chosen ?g"
    by (simp add: eset_chosen_def demo_go_def)
  from p7_builder_Create_eset [OF c', of demo_msa demo_hmm demo_bg] nch
  have "bld_eset b' = - 1" by blast
  with c' nch have third:
    "\<exists>b. p7_builder_Create demo_ext (Some ?g) demo_abc (Some demo_raw) = Some b
       \<and> \<not> eset_chosen ?g \<and> bld_eset b = - 1"
    by blast
  from first d second third show ?thesis by blast
qed

section \<open>Properties of the single-sequence path\<close>

lemma create_strategies_Q: "bld_Q (create_strategies g b) = bld_Q b"
  by (simp add: create_strategies_def Let_def)

lemma demo_create_default:
  "p7_builder_Create demo_ext None demo_abc (Some demo_raw) = Some demo_bld"
  by (simp add: p7_builder_Create_def create_seed_def Let_def demo_ext_def demo_raw_def demo_bld_def
        create_prior_def demo_abc_def esl_randomness_Create_spec_def)

text \<open>
  C7. \<open>p7_builder_Create\<close> leaves \<^verbatim>\<open>bld->Q\<close> at \<^verbatim>\<open>NULL\<close>. On a configuration whose \<open>Q\<close> is
  \<^verbatim>\<open>NULL\<close>, \<open>p7_SingleBuilder\<close> returns \<open>eslEINVAL\<close> for every sequence; it calls neither
  \<^verbatim>\<open>p7_Seqmodel\<close> nor \<^verbatim>\<open>p7_Calibrate\<close>, so no model is made, and it leaves the caller's
  variables for the model and the trace as they were. Its only calls are the ones under
  \<^verbatim>\<open>ERROR\<close>: \<^verbatim>\<open>p7_hmm_Destroy(NULL)\<close> and, for a requested profile or optimized profile,
  the destructor on what the caller's variable holds.
\<close>

theorem p7_SingleBuilder_without_score_system:
  "(p7_builder_Create x go abc raw = Some b \<longrightarrow> bld_Q b = None)
   \<and> (bld_Q bld = None
      \<longrightarrow> (\<exists>res. p7_SingleBuilder x bld sq bg outs = Some res
                 \<and> sres_status res = eslEINVAL
                 \<and> sopt_hmm (sres_outs res) = sopt_hmm outs
                 \<and> sopt_tr (sres_outs res) = sopt_tr outs
                 \<and> Call_p7_Seqmodel \<notin> set (sres_calls res)
                 \<and> Call_p7_Calibrate \<notin> set (sres_calls res)
                 \<and> sres_calls res
                     = Call_p7_hmm_Destroy None
                       # (if requested (sopt_gm outs)
                          then [Call_p7_profile_Destroy (slot_content (sopt_gm outs))] else [])
                       @ (if requested (sopt_om outs)
                          then [Call_p7_oprofile_Destroy (slot_content (sopt_om outs))] else [])))"
proof (intro conjI impI)
  assume c: "p7_builder_Create x go abc raw = Some b"
  then obtain b0 where raw: "raw = Some b0"
    by (cases raw) (simp_all add: p7_builder_Create_def)
  show "bld_Q b = None"
  proof (cases go)
    case None
    with c raw show ?thesis
      by (auto simp: p7_builder_Create_def create_seed_def Let_def split: if_splits)
  next
    case (Some g)
    with c raw show ?thesis
      by (auto simp: p7_builder_Create_def create_seed_def Let_def create_strategies_Q split: if_splits)
  qed
next
  assume "bld_Q bld = None"
  then show "\<exists>res. p7_SingleBuilder x bld sq bg outs = Some res
                 \<and> sres_status res = eslEINVAL
                 \<and> sopt_hmm (sres_outs res) = sopt_hmm outs
                 \<and> sopt_tr (sres_outs res) = sopt_tr outs
                 \<and> Call_p7_Seqmodel \<notin> set (sres_calls res)
                 \<and> Call_p7_Calibrate \<notin> set (sres_calls res)
                 \<and> sres_calls res
                     = Call_p7_hmm_Destroy None
                       # (if requested (sopt_gm outs)
                          then [Call_p7_profile_Destroy (slot_content (sopt_gm outs))] else [])
                       @ (if requested (sopt_om outs)
                          then [Call_p7_oprofile_Destroy (slot_content (sopt_om outs))] else [])"
    by (simp add: p7_SingleBuilder_def single_error_def)
qed

text \<open>The default configuration, as \<open>p7_builder_Create\<close> makes it, on the sample sequence.\<close>

theorem p7_SingleBuilder_without_score_system_witness:
  "p7_builder_Create demo_ext None demo_abc (Some demo_raw) = Some demo_bld
   \<and> bld_Q demo_bld = None
   \<and> (\<exists>res. p7_SingleBuilder demo_ext demo_bld demo_sq demo_bg all_single_outs = Some res
            \<and> sres_status res = eslEINVAL
            \<and> sopt_hmm (sres_outs res) = Slot None
            \<and> sres_calls res
                = [Call_p7_hmm_Destroy None, Call_p7_profile_Destroy None,
                   Call_p7_oprofile_Destroy None])"
proof -
  note q = p7_SingleBuilder_without_score_system
    [of demo_ext None demo_abc "Some demo_raw" demo_bld demo_bld demo_sq demo_bg all_single_outs,
     THEN conjunct1, rule_format, OF demo_create_default]
  note r = p7_SingleBuilder_without_score_system
    [of demo_ext None demo_abc "Some demo_raw" demo_bld demo_bld demo_sq demo_bg all_single_outs,
     THEN conjunct2, rule_format, OF q]
  from r obtain res where
    "p7_SingleBuilder demo_ext demo_bld demo_sq demo_bg all_single_outs = Some res"
    "sres_status res = eslEINVAL"
    "sopt_hmm (sres_outs res) = sopt_hmm all_single_outs"
    "sres_calls res
       = Call_p7_hmm_Destroy None
         # (if requested (sopt_gm all_single_outs)
            then [Call_p7_profile_Destroy (slot_content (sopt_gm all_single_outs))] else [])
         @ (if requested (sopt_om all_single_outs)
            then [Call_p7_oprofile_Destroy (slot_content (sopt_om all_single_outs))] else [])"
    by blast
  then have "\<exists>res. p7_SingleBuilder demo_ext demo_bld demo_sq demo_bg all_single_outs = Some res
            \<and> sres_status res = eslEINVAL
            \<and> sopt_hmm (sres_outs res) = Slot None
            \<and> sres_calls res
                = [Call_p7_hmm_Destroy None, Call_p7_profile_Destroy None,
                   Call_p7_oprofile_Destroy None]"
    by (simp add: all_single_outs_def)
  with demo_create_default q show ?thesis by blast
qed

text \<open>The recursive equation of the loop is used where it is needed, not by default.\<close>

declare append_matches.simps [simp del]

lemma append_matches_ok:
  "\<lbrakk>\<forall>t st k i t'. p7_trace_Append x t st k i = (eslOK, t')
                       \<longrightarrow> tr_path t' = tr_path t @ [(st, k, i)];
    append_matches x tr k n = (eslOK, tr', cs)\<rbrakk> \<Longrightarrow>
         tr_path tr' = tr_path tr @ map (\<lambda>j. (p7T_M, j, j)) [k..n]"
proof (induction x tr k n arbitrary: tr' cs rule: append_matches.induct)
  case (1 x tr k n)
  note contract = "1.prems"(1)
  show ?case
  proof (cases "k \<le> n")
    case False
    with "1.prems" show ?thesis by (simp add: append_matches.simps [of x tr k n])
  next
    case True
    obtain s1 t1 where a: "p7_trace_Append x tr p7T_M k k = (s1, t1)"
      by (cases "p7_trace_Append x tr p7T_M k k")
    obtain s2 t2 c2 where r: "append_matches x t1 (k + 1) n = (s2, t2, c2)"
      by (cases "append_matches x t1 (k + 1) n")
    from "1.prems"(2) True a r have s1: "s1 = eslOK" and s2: "s2 = eslOK" and t2: "t2 = tr'"
      by (auto simp: append_matches.simps [of x tr k n] split: if_splits)
    from contract a s1 have p1: "tr_path t1 = tr_path tr @ [(p7T_M, k, k)]" by blast
    have "tr_path t2 = tr_path t1 @ map (\<lambda>j. (p7T_M, j, j)) [k + 1..n]"
      using "1.IH" [OF True a [symmetric] _ contract, of t2 c2] r s1 s2 by simp
    with p1 t2 True show ?thesis
      by (simp add: upto_rec1 [of k n])
  qed
qed

lemma append_matches_calls:
  "append_matches x tr k n = (eslOK, tr', cs) \<Longrightarrow>
     cs = map (\<lambda>j. Call_p7_trace_Append p7T_M j j) [k..n]"
proof (induction x tr k n arbitrary: tr' cs rule: append_matches.induct)
  case (1 x tr k n)
  show ?case
  proof (cases "k \<le> n")
    case False
    with "1.prems" show ?thesis by (simp add: append_matches.simps [of x tr k n])
  next
    case True
    obtain s1 t1 where a: "p7_trace_Append x tr p7T_M k k = (s1, t1)"
      by (cases "p7_trace_Append x tr p7T_M k k")
    obtain s2 t2 c2 where r: "append_matches x t1 (k + 1) n = (s2, t2, c2)"
      by (cases "append_matches x t1 (k + 1) n")
    from "1.prems" True a r have s1: "s1 = eslOK" and s2: "s2 = eslOK"
      and cs: "cs = Call_p7_trace_Append p7T_M k k # c2"
      by (auto simp: append_matches.simps [of x tr k n] split: if_splits)
    have "c2 = map (\<lambda>j. Call_p7_trace_Append p7T_M j j) [k + 1..n]"
      using "1.IH" [OF True a [symmetric], of t2 c2] r s1 s2 by simp
    with cs True show ?thesis
      by (simp add: upto_rec1 [of k n])
  qed
qed

lemma append_matches_total:
  "\<forall>t st k i. fst (p7_trace_Append x t st k i) = eslOK \<Longrightarrow>
     fst (append_matches x tr k n) = eslOK"
proof (induction x tr k n rule: append_matches.induct)
  case (1 x tr k n)
  show ?case
  proof (cases "k \<le> n")
    case False
    then show ?thesis by (simp add: append_matches.simps [of x tr k n])
  next
    case True
    obtain s1 t1 where a: "p7_trace_Append x tr p7T_M k k = (s1, t1)"
      by (cases "p7_trace_Append x tr p7T_M k k")
    from "1.prems" a have s1: "s1 = eslOK" by (metis fst_conv)
    have "fst (append_matches x t1 (k + 1) n) = eslOK"
      using "1.IH" [OF True a [symmetric] _ "1.prems"] s1 by simp
    with True a s1 show ?thesis
      by (auto simp: append_matches.simps [of x tr k n] split: prod.splits)
  qed
qed


lemma faux_trace_ok:
  assumes append: "\<forall>t st k i t'. p7_trace_Append x t st k i = (eslOK, t')
                      \<longrightarrow> tr_path t' = tr_path t @ [(st, k, i)]"
    and create: "\<forall>t. p7_trace_Create x = Some t \<longrightarrow> tr_path t = []"
    and run: "faux_trace x s0 n = (True, s3, tr, cs)"
  shows "\<exists>t. tr = Some t
           \<and> tr_path t = (p7T_B, 0, 0) # map (\<lambda>k. (p7T_M, k, k)) [1..n] @ [(p7T_E, 0, 0)]
           \<and> tr_M t = n \<and> tr_L t = n"
    and "cs = Call_p7_trace_Create # Call_p7_trace_Append p7T_B 0 0
              # map (\<lambda>k. Call_p7_trace_Append p7T_M k k) [1..n]
              @ [Call_p7_trace_Append p7T_E 0 0]"
proof -
  from run obtain t0 where c: "p7_trace_Create x = Some t0"
    by (cases "p7_trace_Create x") (simp_all add: faux_trace_def)
  obtain s1 t1 where b: "p7_trace_Append x t0 p7T_B 0 0 = (s1, t1)"
    by (cases "p7_trace_Append x t0 p7T_B 0 0")
  obtain s2 t2 c2 where m: "append_matches x t1 1 n = (s2, t2, c2)"
    by (cases "append_matches x t1 1 n")
  obtain s3' t3 where e: "p7_trace_Append x t2 p7T_E 0 0 = (s3', t3)"
    by (cases "p7_trace_Append x t2 p7T_E 0 0")
  from run c b m e have ok: "s1 = eslOK" "s2 = eslOK" "s3' = eslOK"
    and tr: "tr = Some (t3\<lparr>tr_M := n, tr_L := n\<rparr>)"
    and cs: "cs = [Call_p7_trace_Create, Call_p7_trace_Append p7T_B 0 0] @ c2
                  @ [Call_p7_trace_Append p7T_E 0 0]"
    by (auto simp: faux_trace_def Let_def split: if_splits)
  from create c have p0: "tr_path t0 = []" by blast
  from append b ok have p1: "tr_path t1 = tr_path t0 @ [(p7T_B, 0, 0)]" by blast
  from append_matches_ok [OF append] m ok
  have p2: "tr_path t2 = tr_path t1 @ map (\<lambda>j. (p7T_M, j, j)) [1..n]" by blast
  from append e ok have p3: "tr_path t3 = tr_path t2 @ [(p7T_E, 0, 0)]" by blast
  from tr p0 p1 p2 p3
  show "\<exists>t. tr = Some t
           \<and> tr_path t = (p7T_B, 0, 0) # map (\<lambda>k. (p7T_M, k, k)) [1..n] @ [(p7T_E, 0, 0)]
           \<and> tr_M t = n \<and> tr_L t = n"
    by simp
  from append_matches_calls m ok
  have "c2 = map (\<lambda>j. Call_p7_trace_Append p7T_M j j) [1..n]" by blast
  with cs show "cs = Call_p7_trace_Create # Call_p7_trace_Append p7T_B 0 0
              # map (\<lambda>k. Call_p7_trace_Append p7T_M k k) [1..n]
              @ [Call_p7_trace_Append p7T_E 0 0]"
    by simp
qed

lemma faux_trace_failed:
  "faux_trace x eslOK n = (False, s3, tr, cs) \<Longrightarrow> p7_trace_Create x \<noteq> None \<Longrightarrow> s3 \<noteq> eslOK"
  by (auto simp: faux_trace_def Let_def split: option.splits prod.splits if_splits)

lemma faux_trace_total:
  assumes "p7_trace_Create x \<noteq> None"
    and all: "\<forall>t st k i. fst (p7_trace_Append x t st k i) = eslOK"
  shows "fst (faux_trace x s0 n)"
proof -
  from assms obtain t0 where c: "p7_trace_Create x = Some t0" by blast
  obtain s1 t1 where b: "p7_trace_Append x t0 p7T_B 0 0 = (s1, t1)"
    by (cases "p7_trace_Append x t0 p7T_B 0 0")
  obtain s2 t2 c2 where m: "append_matches x t1 1 n = (s2, t2, c2)"
    by (cases "append_matches x t1 1 n")
  obtain s3' t3 where e: "p7_trace_Append x t2 p7T_E 0 0 = (s3', t3)"
    by (cases "p7_trace_Append x t2 p7T_E 0 0")
  from all b have "s1 = eslOK" by (metis fst_conv)
  moreover from append_matches_total [OF all, of t1 1 n] m have "s2 = eslOK" by simp
  moreover from all e have "s3' = eslOK" by (metis fst_conv)
  ultimately show ?thesis using c b m e
    by (simp add: faux_trace_def Let_def)
qed

text \<open>
  The trace when it is allocated. Let \<^verbatim>\<open>p7_trace_Create\<close> give an empty trace and let a
  successful \<^verbatim>\<open>p7_trace_Append\<close> add its triple at the end of the trace. When
  \<open>p7_SingleBuilder\<close> is asked for the trace, \<^verbatim>\<open>p7_trace_Create\<close> gives one and the function
  returns \<open>eslOK\<close>, the caller's variable holds a trace whose path is Begin, then the
  Match state of node \<open>k\<close> at position \<open>k\<close> for \<open>k = 1, ..., n\<close>, then End, and whose \<open>M\<close>
  and \<open>L\<close> are both \<open>n\<close>, the length of the sequence; the calls that built it are
  \<^verbatim>\<open>p7_trace_Create\<close> and these appends, in this order. And the function does return
  \<open>eslOK\<close> whenever the score system is set, \<^verbatim>\<open>p7_Seqmodel\<close> and the calibration succeed,
  the trace is allocated and no append fails.
\<close>

lemma faux_trace_when_created:
  assumes append: "\<forall>t st k i t'. p7_trace_Append x t st k i = (eslOK, t')
                      \<longrightarrow> tr_path t' = tr_path t @ [(st, k, i)]"
    and create: "\<forall>t. p7_trace_Create x = Some t \<longrightarrow> tr_path t = []"
  shows "(p7_SingleBuilder x bld sq bg outs = Some res \<and> sres_status res = eslOK
            \<and> requested (sopt_tr outs) \<and> p7_trace_Create x \<noteq> None
          \<longrightarrow> (\<exists>t. sopt_tr (sres_outs res) = Slot (Some t)
                   \<and> tr_path t
                       = (p7T_B, 0, 0) # map (\<lambda>k. (p7T_M, k, k)) [1..sq_n sq] @ [(p7T_E, 0, 0)]
                   \<and> tr_M t = sq_n sq \<and> tr_L t = sq_n sq)
              \<and> (\<exists>pre post. sres_calls res
                     = pre @ Call_p7_trace_Create # Call_p7_trace_Append p7T_B 0 0
                       # map (\<lambda>k. Call_p7_trace_Append p7T_M k k) [1..sq_n sq]
                       @ Call_p7_trace_Append p7T_E 0 0 # post))
       \<and> (bld_Q bld \<noteq> None
            \<and> p7_Seqmodel x (bld_abc bld) (sq_dsq sq) (sq_n sq) (sq_name sq) (bld_Q bld)
                  (bg_f bg) (bld_popen bld) (bld_pextend bld) = (eslOK, Some h)
            \<and> fst (calibrate x (bld\<lparr>bld_errbuf := ([], [])\<rparr>) h bg (sopt_gm outs) (sopt_om outs))
                = eslOK
            \<and> sq_n sq < 2147483647 \<and> p7_trace_Create x \<noteq> None
            \<and> (\<forall>t st k i. fst (p7_trace_Append x t st k i) = eslOK)
          \<longrightarrow> (\<exists>r. p7_SingleBuilder x bld sq bg outs = Some r \<and> sres_status r = eslOK))"
proof -
  let ?b0 = "bld\<lparr>bld_errbuf := ([], [])\<rparr>"
  have part1: "(\<exists>t. sopt_tr (sres_outs res) = Slot (Some t)
                   \<and> tr_path t
                       = (p7T_B, 0, 0) # map (\<lambda>k. (p7T_M, k, k)) [1..sq_n sq] @ [(p7T_E, 0, 0)]
                   \<and> tr_M t = sq_n sq \<and> tr_L t = sq_n sq)
              \<and> (\<exists>pre post. sres_calls res
                     = pre @ Call_p7_trace_Create # Call_p7_trace_Append p7T_B 0 0
                       # map (\<lambda>k. Call_p7_trace_Append p7T_M k k) [1..sq_n sq]
                       @ Call_p7_trace_Append p7T_E 0 0 # post)"
    if run: "p7_SingleBuilder x bld sq bg outs = Some res" and st: "sres_status res = eslOK"
      and req: "requested (sopt_tr outs)" and cr: "p7_trace_Create x \<noteq> None"
  proof -
    from run st have q: "bld_Q bld \<noteq> None"
      by (auto simp: p7_SingleBuilder_def Let_def single_error_def split: if_splits)
    obtain s1 hmm where sm: "p7_Seqmodel x (bld_abc bld) (sq_dsq sq) (sq_n sq) (sq_name sq)
        (bld_Q bld) (bg_f bg) (bld_popen bld) (bld_pextend bld) = (s1, hmm)"
      by (cases "p7_Seqmodel x (bld_abc bld) (sq_dsq sq) (sq_n sq) (sq_name sq)
        (bld_Q bld) (bg_f bg) (bld_popen bld) (bld_pextend bld)")
    from run st q sm have s1: "s1 = eslOK"
      by (auto simp: p7_SingleBuilder_def Let_def single_error_def split: if_splits)
    from run q sm s1 obtain h where h: "hmm = Some h"
      by (cases hmm) (auto simp: p7_SingleBuilder_def Let_def)
    obtain s2 b1 h1 gm om c2 where
      cal: "calibrate x ?b0 h bg (sopt_gm outs) (sopt_om outs) = (s2, b1, h1, gm, om, c2)"
      by (cases "calibrate x ?b0 h bg (sopt_gm outs) (sopt_om outs)")
    from run st q sm s1 h cal have s2: "s2 = eslOK"
      by (auto simp: p7_SingleBuilder_def Let_def single_error_def split: if_splits)
    from run q sm s1 h cal s2 req have n: "\<not> 2147483647 \<le> sq_n sq"
      by (auto simp: p7_SingleBuilder_def Let_def split: if_splits)
    obtain ok s3 tr c3 where ft: "faux_trace x eslOK (sq_n sq) = (ok, s3, tr, c3)"
      by (cases "faux_trace x eslOK (sq_n sq)")
    from run q sm s1 h cal s2 req n ft
    have alt: "(\<not> ok \<and> res = single_error outs s3 b1 (Some h1) tr gm om
                                  (Call_p7_Seqmodel # c2 @ c3))
               \<or> (ok \<and> res = single_return outs b1 h1 tr gm om (Call_p7_Seqmodel # c2 @ c3))"
      by (auto simp: p7_SingleBuilder_def Let_def split: if_splits)
    have ok: ok
    proof (rule ccontr)
      assume "\<not> ok"
      with alt ft faux_trace_failed [of x "sq_n sq" s3 tr c3] cr st show False
        by (auto simp: single_error_def)
    qed
    with alt have res: "res = single_return outs b1 h1 tr gm om (Call_p7_Seqmodel # c2 @ c3)"
      by blast
    from ok ft have ft': "faux_trace x eslOK (sq_n sq) = (True, s3, tr, c3)" by simp
    from req obtain old where slot: "sopt_tr outs = Slot old"
      by (cases "sopt_tr outs") simp_all
    from faux_trace_ok(1) [OF append create ft'] res slot
    have a: "\<exists>t. sopt_tr (sres_outs res) = Slot (Some t)
                   \<and> tr_path t
                       = (p7T_B, 0, 0) # map (\<lambda>k. (p7T_M, k, k)) [1..sq_n sq] @ [(p7T_E, 0, 0)]
                   \<and> tr_M t = sq_n sq \<and> tr_L t = sq_n sq"
      by (auto simp: single_return_def)
    from faux_trace_ok(2) [OF append create ft'] res
    have "sres_calls res
            = (Call_p7_Seqmodel # c2) @ Call_p7_trace_Create # Call_p7_trace_Append p7T_B 0 0
              # map (\<lambda>k. Call_p7_trace_Append p7T_M k k) [1..sq_n sq]
              @ Call_p7_trace_Append p7T_E 0 0
              # (if requested (sopt_hmm outs) then [] else [Call_p7_hmm_Destroy (Some h1)])"
      by (simp add: single_return_def)
    then have b: "\<exists>pre post. sres_calls res
                     = pre @ Call_p7_trace_Create # Call_p7_trace_Append p7T_B 0 0
                       # map (\<lambda>k. Call_p7_trace_Append p7T_M k k) [1..sq_n sq]
                       @ Call_p7_trace_Append p7T_E 0 0 # post"
      by blast
    from a b show ?thesis by blast
  qed
  have part2: "\<exists>r. p7_SingleBuilder x bld sq bg outs = Some r \<and> sres_status r = eslOK"
    if q: "bld_Q bld \<noteq> None"
      and sm: "p7_Seqmodel x (bld_abc bld) (sq_dsq sq) (sq_n sq) (sq_name sq) (bld_Q bld)
                  (bg_f bg) (bld_popen bld) (bld_pextend bld) = (eslOK, Some h)"
      and cal: "fst (calibrate x ?b0 h bg (sopt_gm outs) (sopt_om outs)) = eslOK"
      and n: "sq_n sq < 2147483647" and cr: "p7_trace_Create x \<noteq> None"
      and all: "\<forall>t st k i. fst (p7_trace_Append x t st k i) = eslOK"
  proof -
    obtain s2 b1 h1 gm om c2 where
      c: "calibrate x ?b0 h bg (sopt_gm outs) (sopt_om outs) = (s2, b1, h1, gm, om, c2)"
      by (cases "calibrate x ?b0 h bg (sopt_gm outs) (sopt_om outs)")
    with cal have s2: "s2 = eslOK" by simp
    obtain ok s3 tr c3 where ft: "faux_trace x eslOK (sq_n sq) = (ok, s3, tr, c3)"
      by (cases "faux_trace x eslOK (sq_n sq)")
    from faux_trace_total [OF cr all, of eslOK "sq_n sq"] ft have ok by simp
    with q sm c s2 n ft show ?thesis
      by (auto simp: p7_SingleBuilder_def Let_def single_return_def)
  qed
  from part1 part2 show ?thesis by blast
qed


text \<open>The sample sequence of length 3.\<close>

lemma faux_trace_when_created_sample:
  "\<exists>res t. p7_SingleBuilder demo_ext (demo_bld\<lparr>bld_Q := Some \<lparr>dm_mx = []\<rparr>\<rparr>) demo_sq demo_bg
               all_single_outs = Some res
     \<and> sres_status res = eslOK
     \<and> sopt_tr (sres_outs res) = Slot (Some t)
     \<and> tr_path t = [(p7T_B, 0, 0), (p7T_M, 1, 1), (p7T_M, 2, 2), (p7T_M, 3, 3), (p7T_E, 0, 0)]
     \<and> tr_M t = 3 \<and> tr_L t = 3"
proof -
  let ?bld = "demo_bld\<lparr>bld_Q := Some \<lparr>dm_mx = []\<rparr>\<rparr>"
  have append: "\<forall>t st k i t'. p7_trace_Append demo_ext t st k i = (eslOK, t')
                      \<longrightarrow> tr_path t' = tr_path t @ [(st, k, i)]"
    by (auto simp: demo_ext_def)
  have create: "\<forall>t. p7_trace_Create demo_ext = Some t \<longrightarrow> tr_path t = []"
    by (auto simp: demo_ext_def)
  have all: "\<forall>t st k i. fst (p7_trace_Append demo_ext t st k i) = eslOK"
    by (simp add: demo_ext_def)
  have cr: "p7_trace_Create demo_ext \<noteq> None"
    by (simp add: demo_ext_def)
  have q: "bld_Q ?bld \<noteq> None" by simp
  have sm: "p7_Seqmodel demo_ext (bld_abc ?bld) (sq_dsq demo_sq) (sq_n demo_sq) (sq_name demo_sq)
              (bld_Q ?bld) (bg_f demo_bg) (bld_popen ?bld) (bld_pextend ?bld)
            = (eslOK, Some (demo_hmm\<lparr>hmm_M := sq_n demo_sq, hmm_nseq := 1\<rparr>))"
    by (simp add: demo_ext_def)
  have cal: "fst (calibrate demo_ext (?bld\<lparr>bld_errbuf := ([], [])\<rparr>)
                    (demo_hmm\<lparr>hmm_M := sq_n demo_sq, hmm_nseq := 1\<rparr>) demo_bg
                    (sopt_gm all_single_outs) (sopt_om all_single_outs)) = eslOK"
    by (simp add: calibrate_def demo_ext_def p7_Calibrate_spec_def demo_sim_def Let_def)
  have n: "sq_n demo_sq < 2147483647" by (simp add: demo_sq_def)
  have req: "requested (sopt_tr all_single_outs)" by (simp add: all_single_outs_def)
  note t = faux_trace_when_created [OF append create, of ?bld demo_sq demo_bg all_single_outs]
  from t [THEN conjunct2, rule_format, OF conjI [OF q conjI [OF sm conjI [OF cal
          conjI [OF n conjI [OF cr all]]]]]]
  obtain r where r: "p7_SingleBuilder demo_ext ?bld demo_sq demo_bg all_single_outs = Some r"
    and st: "sres_status r = eslOK"
    by blast
  from t [of r, THEN conjunct1, rule_format, OF conjI [OF r conjI [OF st conjI [OF req cr]]]]
  obtain tr where "sopt_tr (sres_outs r) = Slot (Some tr)"
    and "tr_path tr = (p7T_B, 0, 0) # map (\<lambda>k. (p7T_M, k, k)) [1..sq_n demo_sq] @ [(p7T_E, 0, 0)]"
    and "tr_M tr = sq_n demo_sq" and "tr_L tr = sq_n demo_sq"
    by blast
  moreover have "[1..sq_n demo_sq] = [1, 2, 3]"
    by (simp add: demo_sq_def upto_rec1)
  ultimately have "sopt_tr (sres_outs r) = Slot (Some tr)
     \<and> tr_path tr = [(p7T_B, 0, 0), (p7T_M, 1, 1), (p7T_M, 2, 2), (p7T_M, 3, 3), (p7T_E, 0, 0)]
     \<and> tr_M tr = 3 \<and> tr_L tr = 3"
    by (simp add: demo_sq_def)
  with r st show ?thesis by blast
qed


text \<open>
  What \<open>p7_SingleBuilder\<close> does when the trace is requested and \<^verbatim>\<open>p7_trace_Create\<close> returns
  \<^verbatim>\<open>NULL\<close>, the score system being set and \<^verbatim>\<open>p7_Seqmodel\<close> and the calibration having
  succeeded: the statements under \<^verbatim>\<open>ERROR\<close> run with \<^verbatim>\<open>status\<close> as the calibration left
  it, \<open>eslOK\<close>.
\<close>

lemma p7_SingleBuilder_no_trace:
  assumes q: "bld_Q bld \<noteq> None"
    and sm: "p7_Seqmodel x (bld_abc bld) (sq_dsq sq) (sq_n sq) (sq_name sq) (bld_Q bld)
               (bg_f bg) (bld_popen bld) (bld_pextend bld) = (eslOK, Some h)"
    and cal: "calibrate x (bld\<lparr>bld_errbuf := ([], [])\<rparr>) h bg (sopt_gm outs) (sopt_om outs)
                = (eslOK, b1, h1, gm, om, c2)"
    and req: "requested (sopt_tr outs)"
    and n: "sq_n sq < 2147483647"
    and cr: "p7_trace_Create x = None"
  shows "p7_SingleBuilder x bld sq bg outs
           = Some (single_error outs eslOK b1 (Some h1) None gm om
                     (Call_p7_Seqmodel # c2 @ [Call_p7_trace_Create]))"
  using q sm cal req n cr
  by (auto simp: p7_SingleBuilder_def faux_trace_def Let_def)

text \<open>
  C9. The trace is not as the claim says where \<^verbatim>\<open>p7_trace_Create\<close> returns \<^verbatim>\<open>NULL\<close>. On
  the sample sequence of length 3, with every output requested, the score system set
  and no memory for the trace, \<open>p7_SingleBuilder\<close> returns \<open>eslOK\<close>; the caller's variables
  for the trace and for the model are as they were before the call, so no trace Begin,
  \<open>M\<^sub>1\<close>, \<open>M\<^sub>2\<close>, \<open>M\<^sub>3\<close>, End is returned; and the model and both profiles have been
  destroyed, the destroyed profiles being left in the caller's variables. The comment
  of the function promises \<^verbatim>\<open>eslEMEM\<close> on allocation error.
\<close>

theorem p7_SingleBuilder_trace_Create_fails:
  "\<exists>res. p7_SingleBuilder (demo_ext\<lparr>p7_trace_Create := None\<rparr>)
            (demo_bld\<lparr>bld_Q := Some \<lparr>dm_mx = []\<rparr>\<rparr>) demo_sq demo_bg all_single_outs = Some res
     \<and> sres_status res = eslOK
     \<and> sres_outs res
         = \<lparr>sopt_hmm = Slot None, sopt_tr = Slot None,
            sopt_gm = Slot (Some 1), sopt_om = Slot (Some 2)\<rparr>
     \<and> sres_calls res
         = [Call_p7_Seqmodel, Call_p7_Calibrate, Call_p7_trace_Create,
            Call_p7_hmm_Destroy
              (Some (demo_hmm\<lparr>hmm_M := 3, hmm_nseq := 1, hmm_evparam := [7]\<rparr>)),
            Call_p7_profile_Destroy (Some 1), Call_p7_oprofile_Destroy (Some 2)]"
  by (simp add: p7_SingleBuilder_def faux_trace_def single_error_def calibrate_def
        demo_ext_def p7_Calibrate_spec_def demo_sim_def demo_bld_def demo_sq_def
        all_single_outs_def Let_def)

section \<open>Properties of the pipeline\<close>





lemma requested_store [simp]: "requested (store p v) = requested p"
  by (cases p) simp_all

























section \<open>Properties of the calibration\<close>

lemma create_prior_spec_ext [simp]: "create_prior (spec_ext x a sim) abc = create_prior x abc"
  by (simp add: create_prior_def spec_ext_def split: esl_abc_type.splits)










end
